theory Spec2Isabelle
  imports Complex_Main "HOL-Library.Word" "HOL-Library.Multiset"
begin

section \<open>Sign-language recognition: dataset split, loaders and training loop\<close>

text \<open>
  A shallow embedding of \<^verbatim>\<open>sign_language_mnist.py\<close> (the CSV dataset, its train/validation
  split and the loader factories) and of the function \<^verbatim>\<open>train\<close> of \<^verbatim>\<open>train.py\<close>.
  Python exceptions are values of the type \<open>error\<close>; a function that can raise returns
  \<open>error + 'a\<close>. Mutable global state (the NumPy generator, the file system) is passed
  explicitly.
\<close>

datatype error =
    AssertionError string
  | FileNotFoundError string
  | ValueError string
  | IndexError string
  | KeyError string
  | ZeroDivisionError
  | AttributeError string

subsection \<open>The global NumPy generator\<close>

text \<open>
  The state of the global generator is the sequence of values it is going to draw.
  \<open>random_interval g mx\<close> is the generator's bounded draw: the next value, reduced into
  \<open>0..mx\<close>, and the advanced state. \<^verbatim>\<open>np.random.shuffle\<close> on a one-dimensional array is the library's loop
  \<^verbatim>\<open>for i in reversed(range(1, n)): j = random_interval(i); x[i], x[j] = x[j], x[i]\<close>.
\<close>

type_synonym rng = "nat \<Rightarrow> nat"

definition random_interval :: "rng \<Rightarrow> nat \<Rightarrow> nat \<times> rng" where
  "random_interval g mx = (g 0 mod Suc mx, \<lambda>k. g (Suc k))"

fun shuffle_raw :: "nat \<Rightarrow> rng \<Rightarrow> 'a list \<Rightarrow> 'a list \<times> rng" where
  "shuffle_raw 0 g x = (x, g)"
| "shuffle_raw (Suc i) g x =
     (case random_interval g (Suc i) of
        (j, g') \<Rightarrow> shuffle_raw i g' (x[Suc i := x ! j, j := x ! Suc i]))"

definition np_random_shuffle :: "rng \<Rightarrow> 'a list \<Rightarrow> 'a list \<times> rng" where
  "np_random_shuffle g x = shuffle_raw (length x - 1) g x"

text \<open>
  Modelled from the spec: \<^verbatim>\<open>utils.set_random_seed\<close>, whose module is not among the sources.
  The spec calls the permutation "seeded" and "deterministic for a fixed seed": seeding
  replaces the generator state by the one that belongs to the seed, whatever the state was.
  The library's map from seeds to states is the parameter \<open>seed_state\<close>.
\<close>

definition set_random_seed :: "(int \<Rightarrow> rng) \<Rightarrow> int \<Rightarrow> rng \<Rightarrow> rng" where
  "set_random_seed seed_state seed g = seed_state seed"

subsection \<open>Python integers and slices\<close>

text \<open>
  \<^verbatim>\<open>int(x)\<close> truncates towards zero. The validation fraction is a rational number and
  \<open>(1 - val_split) * n\<close> is computed exactly; the source computes it in binary floating
  point, which agrees whenever the fraction and the product are representable (as for
  \<open>0.25\<close> and \<open>100\<close>, \<open>0.25\<close> and \<open>5\<close>, \<open>0.5\<close> and \<open>5\<close>). Where the rounded
  product falls just below an integer that the exact product reaches, the source cuts one
  lower than this definition: for \<open>val_split = 0.9\<close> and 10 rows the float product is
  \<open>0.9999999999999998\<close> and the source cuts at 0, the exact product is 1. Every statement
  below that depends on the value of the cut is made at a fraction and a length where
  the float computation is exact; the others hold for every cut.
\<close>

definition py_int :: "rat \<Rightarrow> int" where
  "py_int q = (if 0 \<le> q then \<lfloor>q\<rfloor> else \<lceil>q\<rceil>)"

text \<open>\<^verbatim>\<open>xs[:c]\<close> and \<^verbatim>\<open>xs[c:]\<close>; a negative bound counts from the end and is clipped at 0.\<close>

definition slice_index :: "'a list \<Rightarrow> int \<Rightarrow> nat" where
  "slice_index xs c = (if 0 \<le> c then nat c else length xs - nat (- c))"

definition slice_to :: "'a list \<Rightarrow> int \<Rightarrow> 'a list" where
  "slice_to xs c = take (slice_index xs c) xs"

definition slice_from :: "'a list \<Rightarrow> int \<Rightarrow> 'a list" where
  "slice_from xs c = drop (slice_index xs c) xs"

subsection \<open>The dataset class\<close>

text \<open>
  \<^verbatim>\<open>SignLanguageMNIST._train_val_split\<close>. The argument \<open>seed\<close> is in the signature, as in
  the source, and the body never reads it. The result carries the advanced generator.
\<close>

definition train_val_split ::
  "rng \<Rightarrow> 'a list \<Rightarrow> rat \<Rightarrow> int \<Rightarrow> bool \<Rightarrow> (nat list \<times> nat list) \<times> rng" where
  "train_val_split g data val_split seed shuffle =
     (case (if shuffle then np_random_shuffle g [0..<length data]
            else ([0..<length data], g)) of
        (indices, g') \<Rightarrow>
          ((slice_to indices (py_int ((1 - val_split) * of_nat (length indices))),
            slice_from indices (py_int ((1 - val_split) * of_nat (length indices)))), g'))"

text \<open>
  The world of the constructor: the CSV files by path (each the table of integers below
  its header row), the log of the CSV files read so far, and the NumPy generator.
\<close>

record world =
  files :: "string \<rightharpoonup> int list list"
  reads :: "string list"
  np_random :: rng

definition read_csv :: "world \<Rightarrow> string \<Rightarrow> (error + int list list) \<times> world" where
  "read_csv w csv_file =
     (case files w csv_file of
        None \<Rightarrow> (Inl (FileNotFoundError csv_file), w\<lparr>reads := reads w @ [csv_file]\<rparr>)
      | Some table \<Rightarrow> (Inr table, w\<lparr>reads := reads w @ [csv_file]\<rparr>))"

text \<open>\<^verbatim>\<open>to_numpy(np.uint8)\<close>: every cell is reduced modulo 256.\<close>

definition to_numpy_uint8 :: "int list list \<Rightarrow> 8 word list list" where
  "to_numpy_uint8 table = map (map of_int) table"

text \<open>
  An instance holds the selected rows \<open>data\<close>, the pixel columns and the label column.
  \<open>rows\<close> is a ghost field: the numbers of the CSV rows that \<open>data\<close> holds, in order.
  The two transform callables are stored untouched and are left out.
\<close>

record dataset =
  data :: "8 word list list"
  images :: "8 word list list"
  labels :: "8 word list"
  rows :: "nat list"

definition phases :: "string list" where
  "phases = [''train'', ''val'', ''test'']"

definition phase_message :: string where
  "phase_message = ''Choose phase from ['train', 'val', 'test']''"

text \<open>
  \<^verbatim>\<open>data[:, 1:].reshape(-1, 28, 28, 1)\<close> needs the number of pixel cells to be a multiple
  of 784, and \<^verbatim>\<open>data[:, 0]\<close> needs a first column.
\<close>

function chunks :: "nat \<Rightarrow> 'a list \<Rightarrow> 'a list list" where
  "chunks n xs = (if n = 0 \<or> xs = [] then [] else take n xs # chunks n (drop n xs))"
  by pat_completeness auto
termination
  by (relation "measure (\<lambda>(n, xs). length xs)") auto

declare chunks.simps [simp del]

definition columns :: "dataset \<Rightarrow> error + dataset" where
  "columns d =
     (if length (concat (map tl (data d))) mod 784 \<noteq> 0
      then Inl (ValueError ''cannot reshape array'')
      else if [] \<in> set (data d)
      then Inl (IndexError ''index 0 is out of bounds for axis 1'')
      else Inr (d\<lparr>images := chunks 784 (concat (map tl (data d))),
                  labels := map hd (data d)\<rparr>))"

definition SignLanguageMNIST ::
  "world \<Rightarrow> string \<Rightarrow> string \<Rightarrow> rat \<Rightarrow> bool \<Rightarrow> (error + dataset) \<times> world" where
  "SignLanguageMNIST w csv_file phase val_split shuffle =
     (if phase \<notin> set phases then (Inl (AssertionError phase_message), w)
      else case read_csv w csv_file of
        (Inl e, w1) \<Rightarrow> (Inl e, w1)
      | (Inr table, w1) \<Rightarrow>
          (case train_val_split (np_random w1) (to_numpy_uint8 table) val_split 42 shuffle of
             ((train_indices, val_indices), g') \<Rightarrow>
               (columns
                  (if phase = ''train''
                   then \<lparr>data = map (\<lambda>i. to_numpy_uint8 table ! i) train_indices,
                         images = [], labels = [], rows = train_indices\<rparr>
                   else if phase = ''val''
                   then \<lparr>data = map (\<lambda>i. to_numpy_uint8 table ! i) val_indices,
                         images = [], labels = [], rows = val_indices\<rparr>
                   else \<lparr>data = to_numpy_uint8 table,
                         images = [], labels = [], rows = [0..<length table]\<rparr>),
                w1\<lparr>np_random := g'\<rparr>)))"

text \<open>The configuration values read at import time.\<close>

record config =
  TRAIN_DATASET_PATH :: string
  VAL_SPLIT :: rat
  SHUFFLE :: bool
  TRAIN_BATCH_SIZE :: int
  TRAIN_NUM_WORKERS :: int
  TEST_DATASET_PATH :: string
  TEST_BATCH_SIZE :: int
  TEST_NUM_WORKERS :: int

text \<open>
  \<^verbatim>\<open>get_train_val_datasets\<close>: the dictionary comprehension constructs the instance for
  \<^verbatim>\<open>"train"\<close>, then the one for \<^verbatim>\<open>"val"\<close>, each reading the file and splitting anew.
\<close>

definition get_train_val_datasets ::
  "config \<Rightarrow> world \<Rightarrow> string \<Rightarrow> (error + (string \<rightharpoonup> dataset)) \<times> world" where
  "get_train_val_datasets cfg w train_dataset_path =
     (case SignLanguageMNIST w train_dataset_path ''train'' (VAL_SPLIT cfg) (SHUFFLE cfg) of
        (Inl e, w1) \<Rightarrow> (Inl e, w1)
      | (Inr tr, w1) \<Rightarrow>
          (case SignLanguageMNIST w1 train_dataset_path ''val'' (VAL_SPLIT cfg) (SHUFFLE cfg) of
             (Inl e, w2) \<Rightarrow> (Inl e, w2)
           | (Inr va, w2) \<Rightarrow> (Inr [''train'' \<mapsto> tr, ''val'' \<mapsto> va], w2)))"

definition get_test_dataset :: "world \<Rightarrow> string \<Rightarrow> (error + dataset) \<times> world" where
  "get_test_dataset w test_dataset_path =
     SignLanguageMNIST w test_dataset_path ''test'' (1 / 4) True"


subsection \<open>Loaders\<close>

text \<open>
  A \<^verbatim>\<open>DataLoader\<close> as the factories configure it. The library refuses, in this order, a
  negative worker count, an empty dataset when shuffling is on (its random sampler needs
  a positive number of samples) and a batch size that is not positive.
\<close>

record loader =
  dataset :: dataset
  batch_size :: int
  shuffle :: bool
  num_workers :: int

definition DataLoader :: "dataset \<Rightarrow> int \<Rightarrow> bool \<Rightarrow> int \<Rightarrow> error + loader" where
  "DataLoader ds bs sh nw =
     (if nw < 0 then Inl (ValueError ''num_workers option should be non-negative'')
      else if sh \<and> labels ds = []
      then Inl (ValueError ''num_samples should be a positive integer value'')
      else if bs \<le> 0 then Inl (ValueError ''batch_size should be a positive integer value'')
      else Inr \<lparr>dataset = ds, batch_size = bs, shuffle = sh, num_workers = nw\<rparr>)"

text \<open>
  One entry of the comprehension in \<^verbatim>\<open>get_train_val_loaders\<close>: it calls
  \<^verbatim>\<open>get_train_val_datasets()\<close> again for every key, takes the entry \<open>x\<close> and wraps it
  with \<^verbatim>\<open>shuffle=True\<close>.
\<close>

definition train_val_loader :: "config \<Rightarrow> world \<Rightarrow> string \<Rightarrow> (error + loader) \<times> world" where
  "train_val_loader cfg w x =
     (case get_train_val_datasets cfg w (TRAIN_DATASET_PATH cfg) of
        (Inl e, w1) \<Rightarrow> (Inl e, w1)
      | (Inr dss, w1) \<Rightarrow>
          (case dss x of
             None \<Rightarrow> (Inl (KeyError x), w1)
           | Some ds \<Rightarrow> (DataLoader ds (TRAIN_BATCH_SIZE cfg) True (TRAIN_NUM_WORKERS cfg), w1)))"

definition get_train_val_loaders :: "config \<Rightarrow> world \<Rightarrow> (error + (string \<rightharpoonup> loader)) \<times> world" where
  "get_train_val_loaders cfg w =
     (case train_val_loader cfg w ''train'' of
        (Inl e, w1) \<Rightarrow> (Inl e, w1)
      | (Inr tr, w1) \<Rightarrow>
          (case train_val_loader cfg w1 ''val'' of
             (Inl e, w2) \<Rightarrow> (Inl e, w2)
           | (Inr va, w2) \<Rightarrow> (Inr [''train'' \<mapsto> tr, ''val'' \<mapsto> va], w2)))"

text \<open>\<^verbatim>\<open>get_test_loader\<close> passes no \<^verbatim>\<open>shuffle\<close>; the library's default is off.\<close>

definition get_test_loader :: "config \<Rightarrow> world \<Rightarrow> (error + loader) \<times> world" where
  "get_test_loader cfg w =
     (case get_test_dataset w (TEST_DATASET_PATH cfg) of
        (Inl e, w1) \<Rightarrow> (Inl e, w1)
      | (Inr ds, w1) \<Rightarrow> (DataLoader ds (TEST_BATCH_SIZE cfg) False (TEST_NUM_WORKERS cfg), w1))"

text \<open>
  Iterating a loader once (one phase of one epoch): with \<open>shuffle\<close> the sample order is a
  permutation drawn by the library's \<open>randperm\<close> from its generator, without it the order
  is \<open>0, 1, \<dots>, len - 1\<close>; the order is cut into batches of \<open>batch_size\<close>. The library
  function \<open>randperm\<close> is a parameter. \<^verbatim>\<open>len(dataset)\<close> is the number of labels.
\<close>

definition iter_batches ::
  "(rng \<Rightarrow> nat \<Rightarrow> nat list \<times> rng) \<Rightarrow> rng \<Rightarrow> loader \<Rightarrow> nat list list \<times> rng" where
  "iter_batches randperm tg ld =
     (case (if shuffle ld then randperm tg (length (labels (dataset ld)))
            else ([0..<length (labels (dataset ld))], tg)) of
        (order, tg') \<Rightarrow> (chunks (nat (batch_size ld)) order, tg'))"

subsection \<open>The training loop\<close>

text \<open>
  A model is its class name, its parameter state (\<^verbatim>\<open>state_dict()\<close>), its gradient
  accumulators and its mode flag. The numeric framework is a record of functions:
  \<open>criterion mode p b\<close> is \<^verbatim>\<open>loss.item()\<close> of the forward pass on batch \<open>b\<close> with
  parameters \<open>p\<close>, \<open>corrects mode p b\<close> is \<^verbatim>\<open>torch.sum(preds == labels.data)\<close>,
  \<open>backward\<close> gives the gradients, \<open>step\<close> is \<^verbatim>\<open>optimizer.step()\<close>,
  \<open>scheduler_step\<close> is \<^verbatim>\<open>scheduler.step()\<close> and \<open>shape0\<close> is \<^verbatim>\<open>images.shape[0]\<close>.
  All six are arbitrary, so whatever a training batch writes into the parameter state is
  covered. Losses and accuracies are rational numbers; the source holds them in binary
  floating point, where an accuracy is the correctly rounded quotient of a count by the
  dataset length, so that two accuracies of one loader compare as their rationals do.
\<close>

record ('p, 'g) module =
  class_name :: string
  state_dict :: 'p
  grad :: "'g option"
  training :: bool

record ('p, 'g, 'o, 'b) torch =
  criterion :: "bool \<Rightarrow> 'p \<Rightarrow> 'b \<Rightarrow> rat"
  corrects :: "bool \<Rightarrow> 'p \<Rightarrow> 'b \<Rightarrow> nat"
  backward :: "'p \<Rightarrow> 'b \<Rightarrow> 'g"
  step :: "'o \<Rightarrow> 'p \<Rightarrow> 'g option \<Rightarrow> 'o \<times> 'p"
  scheduler_step :: "'o \<Rightarrow> 'o"
  shape0 :: "'b \<Rightarrow> nat"

text \<open>
  What \<^verbatim>\<open>train\<close> uses of a loader: the batches it yields when it is iterated in a given
  epoch, and \<^verbatim>\<open>len(loader.dataset)\<close>.
\<close>

record 'b dataloader =
  batches :: "int \<Rightarrow> 'b list"
  dataset_len :: nat

datatype event =
    add_scalar string rat int
  | add_scalars string "string \<rightharpoonup> rat" int

text \<open>The local variables of \<^verbatim>\<open>train\<close>, with the model, the optimizer and the writer.\<close>

record ('p, 'g, 'o) trainer =
  model :: "('p, 'g) module"
  optimizer :: 'o
  best_model_wts :: 'p
  best_acc :: rat
  train_val_loss :: "string \<Rightarrow> rat list"
  train_val_acc :: "string \<Rightarrow> rat list"
  train_val_loss_dict :: "string \<rightharpoonup> rat"
  train_val_acc_dict :: "string \<rightharpoonup> rat"
  writer :: "event list"

text \<open>
  The body of the loop over the batches of a phase (lines 97 to 116). The accumulator is
  the trainer state, \<open>running_loss\<close> and \<open>running_corrects\<close>; the latter is \<open>None\<close> while
  it is still the Python integer \<open>0\<close> and \<open>Some c\<close> once a tensor has been added to it.
\<close>

definition batch_step ::
  "('p, 'g, 'o, 'b) torch \<Rightarrow> string \<Rightarrow> 'b
     \<Rightarrow> ('p, 'g, 'o) trainer \<times> rat \<times> nat option \<Rightarrow> ('p, 'g, 'o) trainer \<times> rat \<times> nat option" where
  "batch_step T phase b acc =
     (case acc of (st, running_loss, running_corrects) \<Rightarrow>
        (let m0 = (model st)\<lparr>grad := None\<rparr>;
             loss = criterion T (training m0) (state_dict m0) b;
             c = corrects T (training m0) (state_dict m0) b;
             st1 = (if phase = ''train''
                    then (let m1 = m0\<lparr>grad := Some (backward T (state_dict m0) b)\<rparr>
                          in case step T (optimizer st) (state_dict m1) (grad m1) of
                               (opt', p') \<Rightarrow> st\<lparr>model := m1\<lparr>state_dict := p'\<rparr>, optimizer := opt'\<rparr>)
                    else st\<lparr>model := m0\<rparr>)
         in (st1, running_loss + loss * of_nat (shape0 T b),
             Some ((case running_corrects of None \<Rightarrow> 0 | Some r \<Rightarrow> r) + c))))"

fun run_batches ::
  "('p, 'g, 'o, 'b) torch \<Rightarrow> string \<Rightarrow> 'b list
     \<Rightarrow> ('p, 'g, 'o) trainer \<times> rat \<times> nat option \<Rightarrow> ('p, 'g, 'o) trainer \<times> rat \<times> nat option" where
  "run_batches T phase [] acc = acc"
| "run_batches T phase (b # bs) acc = run_batches T phase bs (batch_step T phase b acc)"

text \<open>
  The statements after the batches of a phase (lines 118 to 139): the scheduler, the
  epoch loss and accuracy with their two possible failures (division by a dataset length
  of zero; \<^verbatim>\<open>.double()\<close> on the integer \<open>0\<close> when the loader yielded no batch), the logs,
  and the best-model bookkeeping.
\<close>

definition finish_phase ::
  "('p, 'g, 'o, 'b) torch \<Rightarrow> 'b dataloader \<Rightarrow> bool \<Rightarrow> int \<Rightarrow> string
     \<Rightarrow> ('p, 'g, 'o) trainer \<times> rat \<times> nat option \<Rightarrow> error + ('p, 'g, 'o) trainer" where
  "finish_phase T dl scheduler epoch phase acc =
     (case acc of (st, running_loss, running_corrects) \<Rightarrow>
        if dataset_len dl = 0 then Inl ZeroDivisionError
        else (case running_corrects of
          None \<Rightarrow> Inl (AttributeError ''int object has no attribute double'')
        | Some c \<Rightarrow>
            (let st1 = (if scheduler \<and> phase = ''train''
                        then st\<lparr>optimizer := scheduler_step T (optimizer st)\<rparr> else st);
                 epoch_loss = running_loss / of_nat (dataset_len dl);
                 epoch_acc = of_nat c / of_nat (dataset_len dl);
                 st2 = st1\<lparr>train_val_loss :=
                              fun_upd (train_val_loss st1) phase (train_val_loss st1 phase @ [epoch_loss]),
                            train_val_acc :=
                              fun_upd (train_val_acc st1) phase (train_val_acc st1 phase @ [epoch_acc]),
                            train_val_loss_dict := fun_upd (train_val_loss_dict st1) phase (Some epoch_loss),
                            train_val_acc_dict := fun_upd (train_val_acc_dict st1) phase (Some epoch_acc),
                            writer := writer st1 @
                              [add_scalar (''Loss/'' @ phase) epoch_loss epoch,
                               add_scalar (''Accuracy/'' @ phase) epoch_acc epoch]\<rparr>
             in Inr (if phase = ''val'' \<and> best_acc st2 < epoch_acc
                     then st2\<lparr>best_acc := epoch_acc,
                              best_model_wts := state_dict (model st2)\<rparr>
                     else st2))))"

definition run_phase ::
  "('p, 'g, 'o, 'b) torch \<Rightarrow> (string \<rightharpoonup> 'b dataloader) \<Rightarrow> bool \<Rightarrow> int \<Rightarrow> string
     \<Rightarrow> ('p, 'g, 'o) trainer \<Rightarrow> error + ('p, 'g, 'o) trainer" where
  "run_phase T dataloaders scheduler epoch phase st =
     (case dataloaders phase of
        None \<Rightarrow> Inl (KeyError phase)
      | Some dl \<Rightarrow>
          finish_phase T dl scheduler epoch phase
            (run_batches T phase (batches dl epoch)
               (st\<lparr>model := (model st)\<lparr>training := (phase = ''train'')\<rparr>\<rparr>, 0, None)))"

definition run_epoch ::
  "('p, 'g, 'o, 'b) torch \<Rightarrow> (string \<rightharpoonup> 'b dataloader) \<Rightarrow> bool \<Rightarrow> int
     \<Rightarrow> ('p, 'g, 'o) trainer \<Rightarrow> error + ('p, 'g, 'o) trainer" where
  "run_epoch T dataloaders scheduler epoch st =
     (case run_phase T dataloaders scheduler epoch ''train'' st of
        Inl e \<Rightarrow> Inl e
      | Inr st1 \<Rightarrow>
          (case run_phase T dataloaders scheduler epoch ''val'' st1 of
             Inl e \<Rightarrow> Inl e
           | Inr st2 \<Rightarrow>
               Inr (st2\<lparr>writer := writer st2 @
                     [add_scalars ''Loss: Train vs. Val'' (train_val_loss_dict st2) epoch,
                      add_scalars ''Accuracy: Train vs. Val'' (train_val_acc_dict st2) epoch]\<rparr>)))"

fun run_epochs ::
  "('p, 'g, 'o, 'b) torch \<Rightarrow> (string \<rightharpoonup> 'b dataloader) \<Rightarrow> bool \<Rightarrow> int list
     \<Rightarrow> ('p, 'g, 'o) trainer \<Rightarrow> error + ('p, 'g, 'o) trainer" where
  "run_epochs T dataloaders scheduler [] st = Inr st"
| "run_epochs T dataloaders scheduler (epoch # epochs) st =
     (case run_epoch T dataloaders scheduler epoch st of
        Inl e \<Rightarrow> Inl e
      | Inr st' \<Rightarrow> run_epochs T dataloaders scheduler epochs st')"

text \<open>
  \<^verbatim>\<open>train\<close>. The result is the returned model, the local variables at the return, whether
  the curves were plotted and what was saved under which path. The device is left out:
  moving a batch to it does not change a value.
\<close>

record ('p, 'g, 'o) outcome =
  returned :: "('p, 'g) module"
  locals :: "('p, 'g, 'o) trainer"
  plotted :: bool
  saved :: "(string \<times> ('p, 'g) module) option"

definition SAVE_MODEL_DIR :: string where
  "SAVE_MODEL_DIR = ''saved_models''"

definition initial_trainer ::
  "('p, 'g) module \<Rightarrow> 'o \<Rightarrow> event list \<Rightarrow> ('p, 'g, 'o) trainer" where
  "initial_trainer m opt w =
     \<lparr>model = m, optimizer = opt, best_model_wts = state_dict m, best_acc = 0,
      train_val_loss = (\<lambda>x. []), train_val_acc = (\<lambda>x. []),
      train_val_loss_dict = Map.empty, train_val_acc_dict = Map.empty, writer = w\<rparr>"

definition train ::
  "('p, 'g, 'o, 'b) torch \<Rightarrow> ('p, 'g) module \<Rightarrow> (string \<rightharpoonup> 'b dataloader) \<Rightarrow> 'o \<Rightarrow> event list
     \<Rightarrow> bool \<Rightarrow> bool \<Rightarrow> int \<Rightarrow> bool \<Rightarrow> error + ('p, 'g, 'o) outcome" where
  "train T m dataloaders opt w scheduler save num_epochs plot =
     (case run_epochs T dataloaders scheduler [1..num_epochs] (initial_trainer m opt w) of
        Inl e \<Rightarrow> Inl e
      | Inr st \<Rightarrow>
          (let m' = (model st)\<lparr>state_dict := best_model_wts st\<rparr>
           in Inr \<lparr>returned = m', locals = st\<lparr>model := m'\<rparr>, plotted = plot,
                   saved = (if save
                            then Some (SAVE_MODEL_DIR @ ''/'' @ class_name m' @ ''_best.pt'', m')
                            else None)\<rparr>))"

text \<open>
  The accuracy that the validation phase records for parameters \<open>p\<close> on the batches of
  epoch \<open>e\<close>: the correct predictions in evaluation mode over the dataset length.
\<close>

definition val_accuracy :: "('p, 'g, 'o, 'b) torch \<Rightarrow> 'b dataloader \<Rightarrow> int \<Rightarrow> 'p \<Rightarrow> rat" where
  "val_accuracy T dl e p =
     of_nat (sum_list (map (corrects T False p) (batches dl e))) / of_nat (dataset_len dl)"

subsection \<open>A small dataset\<close>

text \<open>
  A CSV file of five rows (labels 0 to 4, each with 784 pixels of value 0), a world that
  holds it under the training and the test path, and a configuration with shuffling on.
  The generator of the world is the one seeded with 42: \<open>seed_42_draws\<close> lists the bounded
  draws that the library's generator (MT19937 after \<^verbatim>\<open>np.random.seed(42)\<close>) returns to two
  successive shuffles of five elements, \<open>3, 0, 2, 0\<close> for the bounds \<open>4, 3, 2, 1\<close> and then
  \<open>4, 0, 2, 1\<close>. \<open>fisher_yates_randperm\<close> is a permutation source for the loaders: the
  shuffle of \<open>0, \<dots>, n - 1\<close>.
\<close>

definition example_csv :: "int list list" where
  "example_csv =
     [0 # replicate 784 0, 1 # replicate 784 0, 2 # replicate 784 0, 3 # replicate 784 0,
      4 # replicate 784 0]"

definition seed_42_draws :: rng where
  "seed_42_draws k = (if k < 8 then [3, 0, 2, 0, 4, 0, 2, 1] ! k else 0)"

definition example_world :: world where
  "example_world =
     \<lparr>files = [''sign_mnist_train.csv'' \<mapsto> example_csv, ''sign_mnist_test.csv'' \<mapsto> example_csv],
      reads = [], np_random = seed_42_draws\<rparr>"

definition example_config :: "rat \<Rightarrow> config" where
  "example_config vs =
     \<lparr>TRAIN_DATASET_PATH = ''sign_mnist_train.csv'', VAL_SPLIT = vs, SHUFFLE = True,
      TRAIN_BATCH_SIZE = 2, TRAIN_NUM_WORKERS = 0,
      TEST_DATASET_PATH = ''sign_mnist_test.csv'', TEST_BATCH_SIZE = 2, TEST_NUM_WORKERS = 0\<rparr>"

definition fisher_yates_randperm :: "rng \<Rightarrow> nat \<Rightarrow> nat list \<times> rng" where
  "fisher_yates_randperm g n = np_random_shuffle g [0..<n]"

text \<open>The same files seen by another process: another read log, another generator state.\<close>

definition other_process_world :: world where
  "other_process_world = example_world\<lparr>reads := [''config.yaml''], np_random := (\<lambda>k. 7)\<rparr>"

subsection \<open>A small training run\<close>

text \<open>
  A concrete framework, model and pair of loaders on which the loop can be run: the
  parameter state is one integer that every training batch increases by one, a batch is
  its number of samples, and every sample of a batch is classified correctly once the
  parameter has reached the threshold \<open>thr\<close>.
\<close>

definition example_torch :: "int \<Rightarrow> (int, int, nat, nat) torch" where
  "example_torch thr =
     \<lparr>criterion = (\<lambda>mode p b. 1),
      corrects = (\<lambda>mode p b. if thr \<le> p then b else 0),
      backward = (\<lambda>p b. 1),
      step = (\<lambda>opt p g. (Suc opt, p + (case g of None \<Rightarrow> 0 | Some d \<Rightarrow> d))),
      scheduler_step = (\<lambda>opt. opt),
      shape0 = (\<lambda>b. b)\<rparr>"

definition example_model :: "(int, int) module" where
  "example_model = \<lparr>class_name = ''CNN'', state_dict = 0, grad = None, training = False\<rparr>"

definition example_loaders :: "string \<rightharpoonup> nat dataloader" where
  "example_loaders =
     [''train'' \<mapsto> \<lparr>batches = (\<lambda>e. [2, 2]), dataset_len = 4\<rparr>,
      ''val'' \<mapsto> \<lparr>batches = (\<lambda>e. [2]), dataset_len = 2\<rparr>]"

section \<open>Properties of the split\<close>

lemma random_interval_le: "fst (random_interval g mx) \<le> mx"
  by (simp add: random_interval_def less_Suc_eq_le [symmetric])

lemma mset_shuffle_raw: "i < length x \<Longrightarrow> mset (fst (shuffle_raw i g x)) = mset x"
proof (induction i arbitrary: g x)
  case 0
  then show ?case by simp
next
  case (Suc i)
  obtain j g' where r: "random_interval g (Suc i) = (j, g')"
    by (cases "random_interval g (Suc i)")
  have "j \<le> Suc i" using random_interval_le [of g "Suc i"] r by simp
  then have j: "j < length x" using Suc.prems by simp
  have "mset (x[Suc i := x ! j, j := x ! Suc i]) = mset x"
    using mset_swap [OF j Suc.prems] .
  moreover have "i < length (x[Suc i := x ! j, j := x ! Suc i])" using Suc.prems by simp
  ultimately show ?case using Suc.IH [of "x[Suc i := x ! j, j := x ! Suc i]" g'] r by simp
qed

lemma mset_np_random_shuffle: "mset (fst (np_random_shuffle g x)) = mset x"
  by (cases x) (simp_all add: np_random_shuffle_def mset_shuffle_raw)

lemma length_shuffle_raw: "length (fst (shuffle_raw i g x)) = length x"
proof (induction i arbitrary: g x)
  case 0
  then show ?case by simp
next
  case (Suc i)
  show ?case using Suc.IH by (simp add: random_interval_def)
qed

lemma length_np_random_shuffle: "length (fst (np_random_shuffle g x)) = length x"
  by (simp add: np_random_shuffle_def length_shuffle_raw)

lemma slice_append: "slice_to xs c @ slice_from xs c = xs"
  by (simp add: slice_to_def slice_from_def)

text \<open>
  One call of the split is a partition of the row numbers, whatever the cut and the
  generator: the two slices of one permutation.
\<close>

lemma train_val_split_mset:
  "mset (fst (fst (train_val_split g dat val_split seed shuf))
       @ snd (fst (train_val_split g dat val_split seed shuf))) = mset [0..<length dat]"
proof (cases shuf)
  case True
  obtain p g' where p: "np_random_shuffle g [0..<length dat] = (p, g')"
    by (cases "np_random_shuffle g [0..<length dat]")
  have "mset p = mset [0..<length dat]"
    using mset_np_random_shuffle [of g "[0..<length dat]"] p by simp
  then show ?thesis using True p
    by (simp add: train_val_split_def slice_append del: mset_append mset_upt)
next
  case False
  then show ?thesis
    by (simp add: train_val_split_def slice_append del: mset_append mset_upt)
qed

lemma train_val_split_partition:
  "set (fst (fst (train_val_split g dat val_split seed shuf)))
     \<union> set (snd (fst (train_val_split g dat val_split seed shuf))) = {0..<length dat}
   \<and> set (fst (fst (train_val_split g dat val_split seed shuf)))
     \<inter> set (snd (fst (train_val_split g dat val_split seed shuf))) = {}"
proof -
  let ?tr = "fst (fst (train_val_split g dat val_split seed shuf))"
  let ?va = "snd (fst (train_val_split g dat val_split seed shuf))"
  have m: "mset (?tr @ ?va) = mset [0..<length dat]" by (rule train_val_split_mset)
  have "set (?tr @ ?va) = set [0..<length dat]" using m by (rule mset_eq_setD)
  moreover have "distinct (?tr @ ?va)" using m distinct_upt mset_eq_imp_distinct_iff by blast
  ultimately show ?thesis by auto
qed

text \<open>
  C8. With \<open>val_split = 0.25\<close> and a dataset of exactly 100 rows the split gives 75 training
  rows and 25 validation rows, shuffled or not: the cut is \<open>int(0.75 * 100) = 75\<close>.
\<close>

theorem split_quarter_of_hundred:
  assumes "length dat = 100"
  shows "length (fst (fst (train_val_split g dat (1 / 4) seed shuf))) = 75
       \<and> length (snd (fst (train_val_split g dat (1 / 4) seed shuf))) = 25"
proof -
  have c: "py_int ((1 - 1 / 4) * of_nat (100::nat)) = 75" by (simp add: py_int_def)
  show ?thesis
  proof (cases shuf)
    case True
    obtain p g' where p: "np_random_shuffle g [0..<100] = (p, g')"
      by (cases "np_random_shuffle g [0..<100]")
    have "length p = 100" using length_np_random_shuffle [of g "[0..<100]"] p by simp
    then show ?thesis using True p assms c
      by (simp add: train_val_split_def slice_to_def slice_from_def slice_index_def)
  next
    case False
    then show ?thesis using assms c
      by (simp add: train_val_split_def slice_to_def slice_from_def slice_index_def)
  qed
qed

theorem split_quarter_of_hundred_witness:
  "length (replicate 100 ([] :: 8 word list)) = 100
   \<and> length (fst (fst (train_val_split (\<lambda>k. k) (replicate 100 ([] :: 8 word list)) (1 / 4) 42 True))) = 75
   \<and> length (snd (fst (train_val_split (\<lambda>k. k) (replicate 100 ([] :: 8 word list)) (1 / 4) 42 True))) = 25"
  using split_quarter_of_hundred [of "replicate 100 ([] :: 8 word list)" "\<lambda>k. k" 42 True]
  by simp

text \<open>
  C9. The argument \<open>seed\<close> of the split has no effect: with the same generator state, data,
  fraction and shuffle flag, any two seeds give the same index pair (and the same advanced
  generator).
\<close>

theorem split_ignores_seed:
  "train_val_split g dat val_split seed1 shuf = train_val_split g dat val_split seed2 shuf"
  by (simp add: train_val_split_def)

text \<open>
  C6. A phase name outside train, val, test makes the constructor fail with the assertion
  error and its message, and the world comes back as it was: no CSV file has been read and
  the generator has not been advanced.
\<close>

theorem invalid_phase_fails_before_read:
  "phase \<notin> {''train'', ''val'', ''test''} \<Longrightarrow>
   SignLanguageMNIST w csv_file phase val_split shuf
     = (Inl (AssertionError ''Choose phase from ['train', 'val', 'test']''), w)"
  by (simp add: SignLanguageMNIST_def phases_def phase_message_def)

theorem invalid_phase_fails_before_read_witness:
  "''validation'' \<notin> {''train'', ''val'', ''test''}
   \<and> SignLanguageMNIST \<lparr>files = Map.empty, reads = [], np_random = (\<lambda>k. 0)\<rparr>
        ''sign_mnist_train.csv'' ''validation'' (1 / 4) True
     = (Inl (AssertionError ''Choose phase from ['train', 'val', 'test']''),
        \<lparr>files = Map.empty, reads = [], np_random = (\<lambda>k. 0)\<rparr>)"
  using invalid_phase_fails_before_read
    [of "''validation''" "\<lparr>files = Map.empty, reads = [], np_random = (\<lambda>k. 0)\<rparr>"
        "''sign_mnist_train.csv''" "1 / 4" True]
  by simp

section \<open>Properties of the dataset instances\<close>

text \<open>
  A well-formed file (785 columns in every row) and a valid phase make the constructor
  return; the instance holds the slice of the permutation drawn at that call, and the
  generator is left advanced.
\<close>

lemma length_concat_tl:
  "\<forall>r \<in> set xs. length r = 785 \<Longrightarrow> length (concat (map tl xs)) = 784 * length xs"
  by (induction xs) simp_all

lemma columns_returns:
  assumes "\<forall>r \<in> set (data d). length r = 785"
  shows "columns d = Inr (d\<lparr>images := chunks 784 (concat (map tl (data d))),
                            labels := map hd (data d)\<rparr>)"
proof -
  have "length (concat (map tl (data d))) mod 784 = 0"
    using length_concat_tl [OF assms] by simp
  moreover have "[] \<notin> set (data d)" using assms by auto
  ultimately show ?thesis by (simp add: columns_def)
qed

lemma to_numpy_uint8_rows:
  "\<forall>r \<in> set table. length r = 785 \<Longrightarrow> i < length table \<Longrightarrow>
   length (to_numpy_uint8 table ! i) = 785"
  by (simp add: to_numpy_uint8_def)

lemma length_to_numpy_uint8: "length (to_numpy_uint8 table) = length table"
  by (simp add: to_numpy_uint8_def)

lemma SignLanguageMNIST_returns:
  assumes f: "files w p = Some table"
    and r: "\<forall>r \<in> set table. length r = 785"
    and ph: "phase \<in> {''train'', ''val'', ''test''}"
  shows "\<exists>d w'. SignLanguageMNIST w p phase vs sh = (Inr d, w')
     \<and> files w' = files w
     \<and> np_random w' = snd (train_val_split (np_random w) (to_numpy_uint8 table) vs 42 sh)
     \<and> rows d = (if phase = ''train''
                  then fst (fst (train_val_split (np_random w) (to_numpy_uint8 table) vs 42 sh))
                  else if phase = ''val''
                  then snd (fst (train_val_split (np_random w) (to_numpy_uint8 table) vs 42 sh))
                  else [0..<length table])
     \<and> length (labels d) = length (rows d)"
proof -
  let ?T = "to_numpy_uint8 table"
  let ?sp = "train_val_split (np_random w) ?T vs 42 sh"
  obtain tr va g' where sp: "?sp = ((tr, va), g')" by (metis surj_pair)
  have part: "set tr \<union> set va = {0..<length ?T}"
    using train_val_split_partition [of "np_random w" ?T vs 42 sh] sp by simp
  have rowlen: "\<forall>r \<in> set ?T. length r = 785" using r by (auto simp add: to_numpy_uint8_def)
  have inr: "length (?T ! i) = 785" if "i \<in> set tr \<union> set va" for i
  proof -
    have "i < length ?T" using that part by simp
    then have "?T ! i \<in> set ?T" by (rule nth_mem)
    then show ?thesis using rowlen by blast
  qed
  have tr: "\<forall>r \<in> set (map (\<lambda>i. ?T ! i) tr). length r = 785"
    using inr by auto
  have va: "\<forall>r \<in> set (map (\<lambda>i. ?T ! i) va). length r = 785"
    using inr by auto
  have rd: "read_csv w p = (Inr table, w\<lparr>reads := reads w @ [p]\<rparr>)"
    using f by (simp add: read_csv_def)
  consider "phase = ''train''" | "phase = ''val''" | "phase = ''test''" using ph by blast
  then show ?thesis
  proof cases
    case 1
    let ?d = "\<lparr>data = map (\<lambda>i. ?T ! i) tr, images = [], labels = [], rows = tr\<rparr>"
    have "columns ?d = Inr (?d\<lparr>images := chunks 784 (concat (map tl (data ?d))),
                            labels := map hd (data ?d)\<rparr>)"
      by (rule columns_returns) (use tr in simp)
    then show ?thesis using 1 rd sp
      by (simp add: SignLanguageMNIST_def phases_def)
  next
    case 2
    let ?d = "\<lparr>data = map (\<lambda>i. ?T ! i) va, images = [], labels = [], rows = va\<rparr>"
    have "columns ?d = Inr (?d\<lparr>images := chunks 784 (concat (map tl (data ?d))),
                            labels := map hd (data ?d)\<rparr>)"
      by (rule columns_returns) (use va in simp)
    then show ?thesis using 2 rd sp
      by (simp add: SignLanguageMNIST_def phases_def)
  next
    case 3
    let ?d = "\<lparr>data = ?T, images = [], labels = [], rows = [0..<length table]\<rparr>"
    have "columns ?d = Inr (?d\<lparr>images := chunks 784 (concat (map tl (data ?d))),
                            labels := map hd (data ?d)\<rparr>)"
      by (rule columns_returns) (use rowlen in simp)
    then show ?thesis using 3 rd sp
      by (simp add: SignLanguageMNIST_def phases_def length_to_numpy_uint8)
  qed
qed

lemma get_train_val_datasets_returns:
  assumes f: "files w p = Some table"
    and r: "\<forall>r \<in> set table. length r = 785"
  shows "\<exists>tr va w'. get_train_val_datasets cfg w p = (Inr [''train'' \<mapsto> tr, ''val'' \<mapsto> va], w')
     \<and> files w' = files w
     \<and> rows tr = fst (fst (train_val_split (np_random w) (to_numpy_uint8 table)
                             (VAL_SPLIT cfg) 42 (SHUFFLE cfg)))
     \<and> rows va = snd (fst (train_val_split
                             (snd (train_val_split (np_random w) (to_numpy_uint8 table)
                                     (VAL_SPLIT cfg) 42 (SHUFFLE cfg)))
                             (to_numpy_uint8 table) (VAL_SPLIT cfg) 42 (SHUFFLE cfg)))
     \<and> length (labels tr) = length (rows tr) \<and> length (labels va) = length (rows va)"
proof -
  have p1: "''train'' \<in> {''train'', ''val'', ''test''}" by simp
  have p2: "''val'' \<in> {''train'', ''val'', ''test''}" by simp
  from SignLanguageMNIST_returns [OF f r p1, of "VAL_SPLIT cfg" "SHUFFLE cfg"]
  obtain tr w1 where
    c1: "SignLanguageMNIST w p ''train'' (VAL_SPLIT cfg) (SHUFFLE cfg) = (Inr tr, w1)"
    and f1: "files w1 = files w"
    and g1: "np_random w1 = snd (train_val_split (np_random w) (to_numpy_uint8 table)
                                   (VAL_SPLIT cfg) 42 (SHUFFLE cfg))"
    and r1: "rows tr = fst (fst (train_val_split (np_random w) (to_numpy_uint8 table)
                             (VAL_SPLIT cfg) 42 (SHUFFLE cfg)))"
    and l1: "length (labels tr) = length (rows tr)"
    by auto
  have f1': "files w1 p = Some table" using f f1 by simp
  from SignLanguageMNIST_returns [OF f1' r p2, of "VAL_SPLIT cfg" "SHUFFLE cfg"]
  obtain va w2 where
    c2: "SignLanguageMNIST w1 p ''val'' (VAL_SPLIT cfg) (SHUFFLE cfg) = (Inr va, w2)"
    and f2: "files w2 = files w1"
    and r2: "rows va = snd (fst (train_val_split (np_random w1) (to_numpy_uint8 table)
                             (VAL_SPLIT cfg) 42 (SHUFFLE cfg)))"
    and l2: "length (labels va) = length (rows va)"
    by auto
  have "get_train_val_datasets cfg w p = (Inr [''train'' \<mapsto> tr, ''val'' \<mapsto> va], w2)"
    using c1 c2 by (simp add: get_train_val_datasets_def)
  moreover have "files w2 = files w" using f1 f2 by simp
  moreover have "rows va = snd (fst (train_val_split
                             (snd (train_val_split (np_random w) (to_numpy_uint8 table)
                                     (VAL_SPLIT cfg) 42 (SHUFFLE cfg)))
                             (to_numpy_uint8 table) (VAL_SPLIT cfg) 42 (SHUFFLE cfg)))"
    using r2 g1 by simp
  ultimately show ?thesis using r1 l1 l2 by blast
qed

text \<open>
  Without shuffling both instances slice the same identity permutation, and they
  partition the rows of the file.
\<close>

lemma unshuffled_instances_partition:
  assumes f: "files w p = Some table"
    and r: "\<forall>r \<in> set table. length r = 785"
    and ns: "\<not> SHUFFLE cfg"
  shows "\<exists>tr va w'. get_train_val_datasets cfg w p = (Inr [''train'' \<mapsto> tr, ''val'' \<mapsto> va], w')
     \<and> set (rows tr) \<union> set (rows va) = {0..<length table}
     \<and> set (rows tr) \<inter> set (rows va) = {}"
proof -
  let ?T = "to_numpy_uint8 table"
  from get_train_val_datasets_returns [OF f r, of cfg]
  obtain tr va w' where
    g: "get_train_val_datasets cfg w p = (Inr [''train'' \<mapsto> tr, ''val'' \<mapsto> va], w')"
    and tr: "rows tr = fst (fst (train_val_split (np_random w) ?T (VAL_SPLIT cfg) 42 (SHUFFLE cfg)))"
    and va: "rows va = snd (fst (train_val_split
                (snd (train_val_split (np_random w) ?T (VAL_SPLIT cfg) 42 (SHUFFLE cfg)))
                ?T (VAL_SPLIT cfg) 42 (SHUFFLE cfg)))"
    by blast
  have same: "fst (train_val_split g1 ?T (VAL_SPLIT cfg) 42 (SHUFFLE cfg))
            = fst (train_val_split g2 ?T (VAL_SPLIT cfg) 42 (SHUFFLE cfg))" for g1 g2
    using ns by (simp add: train_val_split_def)
  have va': "rows va = snd (fst (train_val_split (np_random w) ?T (VAL_SPLIT cfg) 42 (SHUFFLE cfg)))"
    unfolding va by (rule arg_cong [where f = snd], rule same)
  from train_val_split_partition [of "np_random w" ?T "VAL_SPLIT cfg" 42 "SHUFFLE cfg"]
  have "set (rows tr) \<union> set (rows va) = {0..<length table}
     \<and> set (rows tr) \<inter> set (rows va) = {}"
    unfolding tr va' by (simp add: length_to_numpy_uint8)
  with g show ?thesis by blast
qed

lemma example_csv_rows: "\<forall>r \<in> set example_csv. length r = 785"
  by (simp add: example_csv_def)

lemma example_csv_length: "length (to_numpy_uint8 example_csv) = 5"
  by (simp add: example_csv_def to_numpy_uint8_def)

lemma snd_shuffle_raw: "snd (shuffle_raw i g x) = (\<lambda>k. g (k + i))"
proof (induction i arbitrary: g x)
  case 0
  then show ?case by simp
next
  case (Suc i)
  show ?case by (simp add: random_interval_def Suc.IH)
qed

lemma snd_np_random_shuffle:
  "snd (np_random_shuffle g x) = (\<lambda>k. g (k + (length x - 1)))"
  by (simp add: np_random_shuffle_def snd_shuffle_raw)

lemma snd_train_val_split_shuffled:
  "snd (train_val_split g dat vs sd True) = (\<lambda>k. g (k + (length dat - 1)))"
  using snd_np_random_shuffle [of g "[0..<length dat]"]
  by (simp add: train_val_split_def case_prod_beta)

lemma train_val_split_length_only:
  "length dat = length dat' \<Longrightarrow>
   train_val_split g dat vs sd shuf = train_val_split g dat' vs sd shuf"
  by (simp add: train_val_split_def)

lemma example_split_first:
  "fst (train_val_split seed_42_draws [(), (), (), (), ()] (1 / 4) 42 True)
     = ([1, 4, 2], [0, 3])"
  by code_simp

lemma example_split_second:
  "fst (train_val_split (\<lambda>k. seed_42_draws (k + 4)) [(), (), (), (), ()] (1 / 4) 42 True)
     = ([3, 1, 2], [0, 4])"
  by code_simp


text \<open>
  C1, at a concrete input. For the file of five rows, \<open>val_split = 0.25\<close>, shuffling on
  and the generator seeded with 42, \<^verbatim>\<open>get_train_val_datasets\<close> returns a training
  instance with the rows 1, 4, 2 and a validation instance with the rows 0, 4: row 4 is in
  both subsets and row 3 is in neither. The two instances are built by two calls of the
  constructor; each shuffles anew from the global generator, which the first call has
  advanced, so the subsets are slices of two different permutations
  (\<open>1, 4, 2, 0, 3\<close> and \<open>3, 1, 2, 0, 4\<close>).
\<close>

theorem train_and_val_instances_overlap:
  "\<exists>tr va w'. get_train_val_datasets (example_config (1 / 4)) example_world
                  ''sign_mnist_train.csv'' = (Inr [''train'' \<mapsto> tr, ''val'' \<mapsto> va], w')
     \<and> rows tr = [1, 4, 2] \<and> rows va = [0, 4]
     \<and> set (rows tr) \<inter> set (rows va) = {4}
     \<and> set (rows tr) \<union> set (rows va) = {0, 1, 2, 4}"
proof -
  let ?T = "to_numpy_uint8 example_csv"
  have f: "files example_world ''sign_mnist_train.csv'' = Some example_csv"
    by (simp add: example_world_def)
  from get_train_val_datasets_returns [OF f example_csv_rows, of "example_config (1 / 4)"]
  obtain tr va w' where
    r: "get_train_val_datasets (example_config (1 / 4)) example_world ''sign_mnist_train.csv''
          = (Inr [''train'' \<mapsto> tr, ''val'' \<mapsto> va], w')"
    and tr: "rows tr = fst (fst (train_val_split (np_random example_world)
                ?T (VAL_SPLIT (example_config (1 / 4))) 42
                (SHUFFLE (example_config (1 / 4)))))"
    and va: "rows va = snd (fst (train_val_split
                (snd (train_val_split (np_random example_world)
                   ?T (VAL_SPLIT (example_config (1 / 4))) 42
                   (SHUFFLE (example_config (1 / 4)))))
                ?T (VAL_SPLIT (example_config (1 / 4))) 42
                (SHUFFLE (example_config (1 / 4)))))"
    by blast
  have c: "VAL_SPLIT (example_config (1 / 4)) = 1 / 4" "SHUFFLE (example_config (1 / 4)) = True"
    "np_random example_world = seed_42_draws"
    by (simp_all add: example_config_def example_world_def)
  have len: "length ?T = length [(), (), (), (), ()]" by (simp add: example_csv_length)
  have e: "length [(), (), (), (), ()] - 1 = (4::nat)" by simp
  have g1: "snd (train_val_split seed_42_draws [(), (), (), (), ()] (1 / 4) 42 True)
              = (\<lambda>k. seed_42_draws (k + 4))"
    unfolding snd_train_val_split_shuffled e by (rule refl)
  have t: "rows tr = [1, 4, 2]"
    unfolding tr c train_val_split_length_only [OF len] example_split_first by simp
  have v: "rows va = [0, 4]"
    unfolding va c train_val_split_length_only [OF len] g1 example_split_second by simp
  have "set (rows tr) \<inter> set (rows va) = {4}" unfolding t v by simp
  moreover have "set (rows tr) \<union> set (rows va) = {0, 1, 2, 4}" unfolding t v by auto
  ultimately show ?thesis using r t v by blast
qed


lemma SignLanguageMNIST_world_independent:
  assumes "files w1 = files w2" and "np_random w1 = np_random w2"
  shows "fst (SignLanguageMNIST w1 p ph vs sh) = fst (SignLanguageMNIST w2 p ph vs sh)
     \<and> files (snd (SignLanguageMNIST w1 p ph vs sh)) = files (snd (SignLanguageMNIST w2 p ph vs sh))
     \<and> np_random (snd (SignLanguageMNIST w1 p ph vs sh))
         = np_random (snd (SignLanguageMNIST w2 p ph vs sh))"
  using assms
  by (cases "files w2 p") (simp_all add: SignLanguageMNIST_def read_csv_def split: prod.splits)

lemma get_train_val_datasets_world_independent:
  assumes "files w1 = files w2" and "np_random w1 = np_random w2"
  shows "fst (get_train_val_datasets cfg w1 p) = fst (get_train_val_datasets cfg w2 p)"
proof -
  obtain a1 u1 where r1: "SignLanguageMNIST w1 p ''train'' (VAL_SPLIT cfg) (SHUFFLE cfg) = (a1, u1)"
    by (cases "SignLanguageMNIST w1 p ''train'' (VAL_SPLIT cfg) (SHUFFLE cfg)")
  obtain a2 u2 where r2: "SignLanguageMNIST w2 p ''train'' (VAL_SPLIT cfg) (SHUFFLE cfg) = (a2, u2)"
    by (cases "SignLanguageMNIST w2 p ''train'' (VAL_SPLIT cfg) (SHUFFLE cfg)")
  from SignLanguageMNIST_world_independent [OF assms, of p "''train''" "VAL_SPLIT cfg" "SHUFFLE cfg"]
  have a: "a1 = a2" and f: "files u1 = files u2" and g: "np_random u1 = np_random u2"
    using r1 r2 by simp_all
  show ?thesis
  proof (cases a1)
    case (Inl e)
    then show ?thesis using a r1 r2 by (simp add: get_train_val_datasets_def)
  next
    case (Inr tr)
    obtain b1 v1 where s1: "SignLanguageMNIST u1 p ''val'' (VAL_SPLIT cfg) (SHUFFLE cfg) = (b1, v1)"
      by (cases "SignLanguageMNIST u1 p ''val'' (VAL_SPLIT cfg) (SHUFFLE cfg)")
    obtain b2 v2 where s2: "SignLanguageMNIST u2 p ''val'' (VAL_SPLIT cfg) (SHUFFLE cfg) = (b2, v2)"
      by (cases "SignLanguageMNIST u2 p ''val'' (VAL_SPLIT cfg) (SHUFFLE cfg)")
    from SignLanguageMNIST_world_independent [OF f g, of p "''val''" "VAL_SPLIT cfg" "SHUFFLE cfg"]
    have b: "b1 = b2" using s1 s2 by simp
    show ?thesis using Inr a b r1 r2 s1 s2
      by (cases b2) (simp_all add: get_train_val_datasets_def)
  qed
qed


text \<open>
  C7. After seeding with the same seed, the split of the same data gives the same index
  pair whatever the generator state was before the seeding, and so does the pair of
  datasets built from the same files: two runs that seed alike split alike.
\<close>

theorem split_reproducible_for_seed:
  "train_val_split (set_random_seed seed_state seed g1) dat val_split sd True
     = train_val_split (set_random_seed seed_state seed g2) dat val_split sd True
   \<and> (files w1 = files w2 \<longrightarrow>
        fst (get_train_val_datasets cfg
               (w1\<lparr>np_random := set_random_seed seed_state seed (np_random w1)\<rparr>) p)
      = fst (get_train_val_datasets cfg
               (w2\<lparr>np_random := set_random_seed seed_state seed (np_random w2)\<rparr>) p))"
proof -
  have "fst (get_train_val_datasets cfg
               (w1\<lparr>np_random := set_random_seed seed_state seed (np_random w1)\<rparr>) p)
      = fst (get_train_val_datasets cfg
               (w2\<lparr>np_random := set_random_seed seed_state seed (np_random w2)\<rparr>) p)"
    if "files w1 = files w2"
    by (rule get_train_val_datasets_world_independent)
       (use that in \<open>simp_all add: set_random_seed_def\<close>)
  then show ?thesis by (simp add: set_random_seed_def)
qed


theorem split_reproducible_for_seed_witness:
  "files example_world = files other_process_world
   \<and> fst (get_train_val_datasets (example_config (1 / 4))
            (example_world\<lparr>np_random := set_random_seed (\<lambda>s k. nat s + k) 42
                                            (np_random example_world)\<rparr>)
            ''sign_mnist_train.csv'')
     = fst (get_train_val_datasets (example_config (1 / 4))
            (other_process_world\<lparr>np_random := set_random_seed (\<lambda>s k. nat s + k) 42
                                            (np_random other_process_world)\<rparr>)
            ''sign_mnist_train.csv'')"
proof -
  have f: "files example_world = files other_process_world"
    by (simp add: other_process_world_def)
  from split_reproducible_for_seed
    [of "\<lambda>s k. nat s + k" 42 "\<lambda>k. k" "[] :: nat list" "1 / 4" 42 "\<lambda>k. 7"
        example_world other_process_world "example_config (1 / 4)" "''sign_mnist_train.csv''"] f
  show ?thesis by blast
qed

section \<open>Properties of the loaders\<close>

lemma DataLoader_returns:
  "0 < bs \<Longrightarrow> 0 \<le> nw \<Longrightarrow> sh \<longrightarrow> labels ds \<noteq> [] \<Longrightarrow>
   DataLoader ds bs sh nw = Inr \<lparr>dataset = ds, batch_size = bs, shuffle = sh, num_workers = nw\<rparr>"
  by (simp add: DataLoader_def)

lemma DataLoader_Inr:
  "DataLoader ds bs sh nw = Inr ld \<Longrightarrow>
   dataset ld = ds \<and> batch_size ld = bs \<and> shuffle ld = sh \<and> num_workers ld = nw"
  by (auto simp add: DataLoader_def split: if_splits)

lemma train_val_loader_Inr:
  assumes "train_val_loader cfg w x = (Inr ld, w')"
  shows "shuffle ld \<and> batch_size ld = TRAIN_BATCH_SIZE cfg"
proof -
  obtain a w1 where g: "get_train_val_datasets cfg w (TRAIN_DATASET_PATH cfg) = (a, w1)"
    by (cases "get_train_val_datasets cfg w (TRAIN_DATASET_PATH cfg)")
  from assms g obtain dss where a: "a = Inr dss"
    by (cases a) (simp_all add: train_val_loader_def)
  from assms g a obtain ds where ds: "dss x = Some ds"
    by (cases "dss x") (simp_all add: train_val_loader_def)
  from assms g a ds
  have "DataLoader ds (TRAIN_BATCH_SIZE cfg) True (TRAIN_NUM_WORKERS cfg) = Inr ld"
    by (simp add: train_val_loader_def)
  from DataLoader_Inr [OF this] show ?thesis by simp
qed

lemma get_train_val_loaders_Inr:
  assumes "get_train_val_loaders cfg w = (Inr lds, w')"
  shows "\<exists>ltr lva. lds ''train'' = Some ltr \<and> lds ''val'' = Some lva
     \<and> shuffle ltr \<and> shuffle lva"
proof -
  obtain a w1 where t: "train_val_loader cfg w ''train'' = (a, w1)"
    by (cases "train_val_loader cfg w ''train''")
  from assms t obtain ltr where a: "a = Inr ltr"
    by (cases a) (simp_all add: get_train_val_loaders_def)
  obtain b w2 where v: "train_val_loader cfg w1 ''val'' = (b, w2)"
    by (cases "train_val_loader cfg w1 ''val''")
  from assms t a v obtain lva where b: "b = Inr lva"
    by (cases b) (simp_all add: get_train_val_loaders_def)
  have "lds = [''train'' \<mapsto> ltr, ''val'' \<mapsto> lva]"
    using assms t a v b by (simp add: get_train_val_loaders_def)
  moreover have "shuffle ltr" using train_val_loader_Inr [of cfg w "''train''" ltr w1] t a by simp
  moreover have "shuffle lva" using train_val_loader_Inr [of cfg w1 "''val''" lva w2] v b by simp
  ultimately show ?thesis by simp
qed

lemma columns_Inr:
  "columns d = Inr d' \<Longrightarrow>
   d' = d\<lparr>images := chunks 784 (concat (map tl (data d))), labels := map hd (data d)\<rparr>"
  by (simp add: columns_def split: if_splits)

lemma test_instance_Inr:
  assumes "SignLanguageMNIST w p ''test'' vs sh = (Inr d, w')"
  shows "\<exists>table. files w p = Some table \<and> data d = to_numpy_uint8 table
     \<and> rows d = [0..<length table] \<and> length (labels d) = length table"
proof -
  obtain table where f: "files w p = Some table"
    using assms
    by (cases "files w p") (simp_all add: SignLanguageMNIST_def read_csv_def phases_def)
  obtain tr va g' where
    sp: "train_val_split (np_random w) (to_numpy_uint8 table) vs 42 sh = ((tr, va), g')"
    by (metis surj_pair)
  let ?d = "\<lparr>data = to_numpy_uint8 table, images = [], labels = [],
              rows = [0..<length table]\<rparr>"
  have "columns ?d = Inr d"
    using assms f sp by (simp add: SignLanguageMNIST_def read_csv_def phases_def)
  from columns_Inr [OF this] have
    "data d = to_numpy_uint8 table" "rows d = [0..<length table]"
    "labels d = map hd (to_numpy_uint8 table)"
    by simp_all
  then show ?thesis using f by (simp add: length_to_numpy_uint8)
qed

lemma get_test_loader_Inr:
  assumes "get_test_loader cfg w = (Inr lt, w')"
  shows "\<not> shuffle lt"
    and "\<exists>table. files w (TEST_DATASET_PATH cfg) = Some table
       \<and> data (dataset lt) = to_numpy_uint8 table
       \<and> rows (dataset lt) = [0..<length table]
       \<and> length (labels (dataset lt)) = length table"
proof -
  obtain a w1 where g: "get_test_dataset w (TEST_DATASET_PATH cfg) = (a, w1)"
    by (cases "get_test_dataset w (TEST_DATASET_PATH cfg)")
  from assms g obtain ds where a: "a = Inr ds"
    by (cases a) (simp_all add: get_test_loader_def)
  from assms g a
  have "DataLoader ds (TEST_BATCH_SIZE cfg) False (TEST_NUM_WORKERS cfg) = Inr lt"
    by (simp add: get_test_loader_def)
  from DataLoader_Inr [OF this] have d: "dataset lt = ds" and s: "\<not> shuffle lt" by simp_all
  show "\<not> shuffle lt" by (rule s)
  have "SignLanguageMNIST w (TEST_DATASET_PATH cfg) ''test'' (1 / 4) True = (Inr ds, w1)"
    using g a by (simp add: get_test_dataset_def)
  from test_instance_Inr [OF this] d
  show "\<exists>table. files w (TEST_DATASET_PATH cfg) = Some table
       \<and> data (dataset lt) = to_numpy_uint8 table
       \<and> rows (dataset lt) = [0..<length table]
       \<and> length (labels (dataset lt)) = length table"
    by simp
qed

lemma iter_batches_shuffled:
  "shuffle ld \<Longrightarrow>
   fst (iter_batches rp g ld)
     = chunks (nat (batch_size ld)) (fst (rp g (length (labels (dataset ld)))))"
  by (simp add: iter_batches_def case_prod_beta)

lemma iter_batches_sequential:
  "\<not> shuffle ld \<Longrightarrow>
   iter_batches rp g ld = (chunks (nat (batch_size ld)) [0..<length (labels (dataset ld))], g)"
  by (simp add: iter_batches_def)

lemma length_val_indices:
  "length (snd (fst (train_val_split g dat vs sd shuf)))
     = length dat - slice_index dat (py_int ((1 - vs) * of_nat (length dat)))"
proof (cases shuf)
  case True
  obtain p g' where p: "np_random_shuffle g [0..<length dat] = (p, g')"
    by (cases "np_random_shuffle g [0..<length dat]")
  have "length p = length dat"
    using length_np_random_shuffle [of g "[0..<length dat]"] p by simp
  then show ?thesis using True p
    by (simp add: train_val_split_def slice_from_def slice_index_def)
next
  case False
  then show ?thesis
    by (simp add: train_val_split_def slice_from_def slice_index_def)
qed

lemma length_train_indices:
  "length (fst (fst (train_val_split g dat vs sd shuf)))
     = min (length dat) (slice_index dat (py_int ((1 - vs) * of_nat (length dat))))"
proof (cases shuf)
  case True
  obtain p g' where p: "np_random_shuffle g [0..<length dat] = (p, g')"
    by (cases "np_random_shuffle g [0..<length dat]")
  have "length p = length dat"
    using length_np_random_shuffle [of g "[0..<length dat]"] p by simp
  then show ?thesis using True p
    by (simp add: train_val_split_def slice_to_def slice_index_def)
next
  case False
  then show ?thesis
    by (simp add: train_val_split_def slice_to_def slice_index_def)
qed

text \<open>
  The factory returns when the file is well formed, the batch size and the worker count
  are accepted, and the cut leaves both subsets non-empty.
\<close>

lemma train_val_loader_returns:
  assumes f: "files w (TRAIN_DATASET_PATH cfg) = Some table"
    and r: "\<forall>r \<in> set table. length r = 785"
    and bs: "0 < TRAIN_BATCH_SIZE cfg" and nw: "0 \<le> TRAIN_NUM_WORKERS cfg"
    and c0: "0 < slice_index table (py_int ((1 - VAL_SPLIT cfg) * of_nat (length table)))"
    and c1: "slice_index table (py_int ((1 - VAL_SPLIT cfg) * of_nat (length table)))
               < length table"
  shows "\<exists>ld w'. train_val_loader cfg w ''val'' = (Inr ld, w') \<and> files w' = files w
       \<and> batch_size ld = TRAIN_BATCH_SIZE cfg
       \<and> length (labels (dataset ld))
           = length table - slice_index table
               (py_int ((1 - VAL_SPLIT cfg) * of_nat (length table)))"
    and "\<exists>ld w'. train_val_loader cfg w ''train'' = (Inr ld, w') \<and> files w' = files w"
proof -
  from get_train_val_datasets_returns [OF f r, of cfg]
  obtain tr va w' where
    g: "get_train_val_datasets cfg w (TRAIN_DATASET_PATH cfg)
          = (Inr [''train'' \<mapsto> tr, ''val'' \<mapsto> va], w')"
    and fw: "files w' = files w"
    and rt: "rows tr = fst (fst (train_val_split (np_random w) (to_numpy_uint8 table)
                             (VAL_SPLIT cfg) 42 (SHUFFLE cfg)))"
    and rv: "rows va = snd (fst (train_val_split
                             (snd (train_val_split (np_random w) (to_numpy_uint8 table)
                                     (VAL_SPLIT cfg) 42 (SHUFFLE cfg)))
                             (to_numpy_uint8 table) (VAL_SPLIT cfg) 42 (SHUFFLE cfg)))"
    and lt: "length (labels tr) = length (rows tr)"
    and lv: "length (labels va) = length (rows va)"
    by blast
  have len: "length (labels va) = length table - slice_index table
               (py_int ((1 - VAL_SPLIT cfg) * of_nat (length table)))"
    unfolding lv rv length_val_indices
    by (simp add: length_to_numpy_uint8 slice_index_def)
  have lent: "length (labels tr) = min (length table) (slice_index table
               (py_int ((1 - VAL_SPLIT cfg) * of_nat (length table))))"
    unfolding lt rt length_train_indices
    by (simp add: length_to_numpy_uint8 slice_index_def)
  have nev: "True \<longrightarrow> labels va \<noteq> []" using len c1 by auto
  have net: "True \<longrightarrow> labels tr \<noteq> []" using lent c0 c1 by auto
  have "train_val_loader cfg w ''val''
      = (Inr \<lparr>dataset = va, batch_size = TRAIN_BATCH_SIZE cfg, shuffle = True,
               num_workers = TRAIN_NUM_WORKERS cfg\<rparr>, w')"
    using g by (simp add: train_val_loader_def DataLoader_returns [OF bs nw nev])
  then show "\<exists>ld w'. train_val_loader cfg w ''val'' = (Inr ld, w') \<and> files w' = files w
       \<and> batch_size ld = TRAIN_BATCH_SIZE cfg
       \<and> length (labels (dataset ld))
           = length table - slice_index table
               (py_int ((1 - VAL_SPLIT cfg) * of_nat (length table)))"
    using fw len by simp
  have "train_val_loader cfg w ''train''
      = (Inr \<lparr>dataset = tr, batch_size = TRAIN_BATCH_SIZE cfg, shuffle = True,
               num_workers = TRAIN_NUM_WORKERS cfg\<rparr>, w')"
    using g by (simp add: train_val_loader_def DataLoader_returns [OF bs nw net])
  then show "\<exists>ld w'. train_val_loader cfg w ''train'' = (Inr ld, w') \<and> files w' = files w"
    using fw by simp
qed

lemma get_train_val_loaders_returns:
  assumes f: "files w (TRAIN_DATASET_PATH cfg) = Some table"
    and r: "\<forall>r \<in> set table. length r = 785"
    and bs: "0 < TRAIN_BATCH_SIZE cfg" and nw: "0 \<le> TRAIN_NUM_WORKERS cfg"
    and c0: "0 < slice_index table (py_int ((1 - VAL_SPLIT cfg) * of_nat (length table)))"
    and c1: "slice_index table (py_int ((1 - VAL_SPLIT cfg) * of_nat (length table)))
               < length table"
  shows "\<exists>ltr lva w'. get_train_val_loaders cfg w = (Inr [''train'' \<mapsto> ltr, ''val'' \<mapsto> lva], w')
       \<and> batch_size lva = TRAIN_BATCH_SIZE cfg
       \<and> length (labels (dataset lva))
           = length table - slice_index table
               (py_int ((1 - VAL_SPLIT cfg) * of_nat (length table)))"
proof -
  from train_val_loader_returns(2) [OF f r bs nw c0 c1]
  obtain ltr w1 where t: "train_val_loader cfg w ''train'' = (Inr ltr, w1)"
    and f1: "files w1 = files w" by blast
  have f1': "files w1 (TRAIN_DATASET_PATH cfg) = Some table" using f f1 by simp
  from train_val_loader_returns(1) [OF f1' r bs nw c0 c1]
  obtain lva w2 where v: "train_val_loader cfg w1 ''val'' = (Inr lva, w2)"
    and b: "batch_size lva = TRAIN_BATCH_SIZE cfg"
    and l: "length (labels (dataset lva))
           = length table - slice_index table
               (py_int ((1 - VAL_SPLIT cfg) * of_nat (length table)))"
    by blast
  have "get_train_val_loaders cfg w = (Inr [''train'' \<mapsto> ltr, ''val'' \<mapsto> lva], w2)"
    using t v by (simp add: get_train_val_loaders_def)
  then show ?thesis using b l by blast
qed

lemma get_test_loader_returns:
  assumes f: "files w (TEST_DATASET_PATH cfg) = Some table"
    and r: "\<forall>r \<in> set table. length r = 785"
    and bs: "0 < TEST_BATCH_SIZE cfg" and nw: "0 \<le> TEST_NUM_WORKERS cfg"
  shows "\<exists>lt w'. get_test_loader cfg w = (Inr lt, w')
       \<and> batch_size lt = TEST_BATCH_SIZE cfg
       \<and> length (labels (dataset lt)) = length table"
proof -
  have ph: "''test'' \<in> {''train'', ''val'', ''test''}" by simp
  from SignLanguageMNIST_returns [OF f r ph, of "1 / 4" True]
  obtain d w' where
    c: "SignLanguageMNIST w (TEST_DATASET_PATH cfg) ''test'' (1 / 4) True = (Inr d, w')"
    and l: "length (labels d) = length (rows d)"
    and rw: "rows d = [0..<length table]"
    by auto
  have "get_test_loader cfg w
      = (Inr \<lparr>dataset = d, batch_size = TEST_BATCH_SIZE cfg, shuffle = False,
               num_workers = TEST_NUM_WORKERS cfg\<rparr>, w')"
    using c by (simp add: get_test_loader_def get_test_dataset_def DataLoader_returns [OF bs nw])
  then show ?thesis using l rw by simp
qed

lemma example_val_order_first:
  "chunks 2 (fst (fisher_yates_randperm (\<lambda>k. 0) 3)) = [[1, 2], [0]]"
  by code_simp

lemma example_val_order_second:
  "chunks 2 (fst (fisher_yates_randperm (\<lambda>k. 1) 3)) = [[0, 2], [1]]"
  by code_simp

lemma example_csv_count: "length example_csv = 5"
  by (simp add: example_csv_def)

lemma example_positions: "[0..<5] = [0, 1, 2, 3, 4::nat]"
  by code_simp

lemma example_half_cut:
  "slice_index example_csv
      (py_int ((1 - VAL_SPLIT (example_config (1 / 2))) * of_nat (length example_csv))) = 2"
proof -
  have v: "VAL_SPLIT (example_config (1 / 2)) = 1 / 2" by (simp add: example_config_def)
  have c: "py_int ((1 - 1 / 2) * of_nat 5) = 2" by code_simp
  show ?thesis unfolding v example_csv_count c by (simp add: slice_index_def)
qed

text \<open>
  C2, as stated, fails for the validation phase. For the file of five rows and
  \<open>val_split = 0.5\<close> the validation loader that \<^verbatim>\<open>get_train_val_loaders\<close> returns holds
  three samples; iterated with a generator that draws 0 it yields the batches
  \<open>[1, 2], [0]\<close> and with one that draws 1 the batches \<open>[0, 2], [1]\<close>: its order is
  drawn, not fixed.
\<close>

theorem validation_loader_order_counterexample:
  "case fst (get_train_val_loaders (example_config (1 / 2)) example_world) of
     Inl e \<Rightarrow> False
   | Inr lds \<Rightarrow>
       (case lds ''val'' of
          None \<Rightarrow> False
        | Some ld \<Rightarrow>
            fst (iter_batches fisher_yates_randperm (\<lambda>k. 0) ld) = [[1, 2], [0]]
            \<and> fst (iter_batches fisher_yates_randperm (\<lambda>k. 1) ld) = [[0, 2], [1]]
            \<and> fst (iter_batches fisher_yates_randperm (\<lambda>k. 0) ld)
                \<noteq> fst (iter_batches fisher_yates_randperm (\<lambda>k. 1) ld))"
proof -
  have f: "files example_world (TRAIN_DATASET_PATH (example_config (1 / 2))) = Some example_csv"
    by (simp add: example_world_def example_config_def)
  have bs: "0 < TRAIN_BATCH_SIZE (example_config (1 / 2))"
    and nw: "0 \<le> TRAIN_NUM_WORKERS (example_config (1 / 2))"
    by (simp_all add: example_config_def)
  have c0: "0 < slice_index example_csv
      (py_int ((1 - VAL_SPLIT (example_config (1 / 2))) * of_nat (length example_csv)))"
    and c1: "slice_index example_csv
      (py_int ((1 - VAL_SPLIT (example_config (1 / 2))) * of_nat (length example_csv)))
        < length example_csv"
    unfolding example_half_cut unfolding example_csv_count by simp_all
  from get_train_val_loaders_returns [OF f example_csv_rows bs nw c0 c1]
  obtain ltr lva w' where
    r: "get_train_val_loaders (example_config (1 / 2)) example_world
          = (Inr [''train'' \<mapsto> ltr, ''val'' \<mapsto> lva], w')"
    and b: "batch_size lva = TRAIN_BATCH_SIZE (example_config (1 / 2))"
    and l: "length (labels (dataset lva)) = length example_csv - slice_index example_csv
              (py_int ((1 - VAL_SPLIT (example_config (1 / 2))) * of_nat (length example_csv)))"
    by blast
  have sh: "shuffle lva" using get_train_val_loaders_Inr [OF r] by simp
  have b2: "nat (batch_size lva) = 2" using b by (simp add: example_config_def)
  have l2: "length (labels (dataset lva)) = 3"
    using l unfolding example_half_cut unfolding example_csv_count by simp
  have o1: "fst (iter_batches fisher_yates_randperm (\<lambda>k. 0) lva) = [[1, 2], [0]]"
    unfolding iter_batches_shuffled [OF sh] b2 l2 by (rule example_val_order_first)
  have o2: "fst (iter_batches fisher_yates_randperm (\<lambda>k. 1) lva) = [[0, 2], [1]]"
    unfolding iter_batches_shuffled [OF sh] b2 l2 by (rule example_val_order_second)
  show ?thesis using r o1 o2 by simp
qed


text \<open>
  C2, amended. The training loader and the validation loader are both built with
  \<^verbatim>\<open>shuffle=True\<close>: the order of the samples in the batches of an epoch is the permutation
  drawn for that iteration, for both. The test loader is built without shuffling: it
  yields the positions \<open>0, 1, \<dots>, len - 1\<close> of its dataset in this order and leaves the
  generator alone, and its dataset holds the whole file with position \<open>i\<close> holding row
  \<open>i\<close>, so the samples come in file order.
\<close>

theorem loaders_shuffle_train_and_val:
  "(get_train_val_loaders cfg w = (Inr lds, w1) \<longrightarrow>
      (\<exists>ltr lva. lds ''train'' = Some ltr \<and> lds ''val'' = Some lva
         \<and> shuffle ltr \<and> shuffle lva
         \<and> (\<forall>rp g. fst (iter_batches rp g ltr)
               = chunks (nat (batch_size ltr)) (fst (rp g (length (labels (dataset ltr))))))
         \<and> (\<forall>rp g. fst (iter_batches rp g lva)
               = chunks (nat (batch_size lva)) (fst (rp g (length (labels (dataset lva))))))))
   \<and> (get_test_loader cfg w = (Inr lt, w2) \<longrightarrow>
        \<not> shuffle lt
        \<and> (\<forall>rp g. iter_batches rp g lt
              = (chunks (nat (batch_size lt)) [0..<length (labels (dataset lt))], g))
        \<and> (\<exists>table. files w (TEST_DATASET_PATH cfg) = Some table
              \<and> data (dataset lt) = to_numpy_uint8 table
              \<and> rows (dataset lt) = [0..<length table]
              \<and> length (labels (dataset lt)) = length table))"
proof (intro conjI impI)
  assume "get_train_val_loaders cfg w = (Inr lds, w1)"
  from get_train_val_loaders_Inr [OF this] obtain ltr lva where
    "lds ''train'' = Some ltr" "lds ''val'' = Some lva" "shuffle ltr" "shuffle lva" by blast
  then show "\<exists>ltr lva. lds ''train'' = Some ltr \<and> lds ''val'' = Some lva
         \<and> shuffle ltr \<and> shuffle lva
         \<and> (\<forall>rp g. fst (iter_batches rp g ltr)
               = chunks (nat (batch_size ltr)) (fst (rp g (length (labels (dataset ltr))))))
         \<and> (\<forall>rp g. fst (iter_batches rp g lva)
               = chunks (nat (batch_size lva)) (fst (rp g (length (labels (dataset lva))))))"
    using iter_batches_shuffled by blast
next
  assume t: "get_test_loader cfg w = (Inr lt, w2)"
  from get_test_loader_Inr(1) [OF t] show "\<not> shuffle lt" .
  then show "\<forall>rp g. iter_batches rp g lt
              = (chunks (nat (batch_size lt)) [0..<length (labels (dataset lt))], g)"
    using iter_batches_sequential by blast
  from get_test_loader_Inr(2) [OF t]
  show "\<exists>table. files w (TEST_DATASET_PATH cfg) = Some table
              \<and> data (dataset lt) = to_numpy_uint8 table
              \<and> rows (dataset lt) = [0..<length table]
              \<and> length (labels (dataset lt)) = length table" .
qed

theorem loaders_shuffle_train_and_val_witness:
  "\<exists>lds w1 lt w2.
      get_train_val_loaders (example_config (1 / 2)) example_world = (Inr lds, w1)
    \<and> get_test_loader (example_config (1 / 2)) example_world = (Inr lt, w2)
    \<and> (\<exists>ltr lva. lds ''train'' = Some ltr \<and> lds ''val'' = Some lva
          \<and> shuffle ltr \<and> shuffle lva)
    \<and> \<not> shuffle lt
    \<and> (\<forall>rp g. iter_batches rp g lt = ([[0, 1], [2, 3], [4]], g))
    \<and> data (dataset lt) = to_numpy_uint8 example_csv
    \<and> rows (dataset lt) = [0, 1, 2, 3, 4]"
proof -
  have f: "files example_world (TRAIN_DATASET_PATH (example_config (1 / 2))) = Some example_csv"
    and ft: "files example_world (TEST_DATASET_PATH (example_config (1 / 2))) = Some example_csv"
    by (simp_all add: example_world_def example_config_def)
  have bs: "0 < TRAIN_BATCH_SIZE (example_config (1 / 2))"
    and nw: "0 \<le> TRAIN_NUM_WORKERS (example_config (1 / 2))"
    and bst: "0 < TEST_BATCH_SIZE (example_config (1 / 2))"
    and nwt: "0 \<le> TEST_NUM_WORKERS (example_config (1 / 2))"
    by (simp_all add: example_config_def)
  have c0: "0 < slice_index example_csv
      (py_int ((1 - VAL_SPLIT (example_config (1 / 2))) * of_nat (length example_csv)))"
    and c1: "slice_index example_csv
      (py_int ((1 - VAL_SPLIT (example_config (1 / 2))) * of_nat (length example_csv)))
        < length example_csv"
    unfolding example_half_cut unfolding example_csv_count by simp_all
  from get_train_val_loaders_returns [OF f example_csv_rows bs nw c0 c1]
  obtain lds w1 where
    r: "get_train_val_loaders (example_config (1 / 2)) example_world = (Inr lds, w1)"
    by blast
  from get_test_loader_returns [OF ft example_csv_rows bst nwt]
  obtain lt w2 where
    t: "get_test_loader (example_config (1 / 2)) example_world = (Inr lt, w2)"
    and b: "batch_size lt = TEST_BATCH_SIZE (example_config (1 / 2))"
    and l: "length (labels (dataset lt)) = length example_csv"
    by blast
  have b2: "nat (batch_size lt) = 2" using b by (simp add: example_config_def)
  have l4: "length (labels (dataset lt)) = 5" using l by (simp add: example_csv_count)
  have c: "chunks 2 [0..<5] = [[0, 1], [2, 3], [4::nat]]" by code_simp
  note T = loaders_shuffle_train_and_val
    [of "example_config (1 / 2)" example_world lds w1 lt w2]
  from T r have "\<exists>ltr lva. lds ''train'' = Some ltr \<and> lds ''val'' = Some lva
          \<and> shuffle ltr \<and> shuffle lva" by blast
  moreover from T t have "\<not> shuffle lt" by blast
  moreover from T t have "\<forall>rp g. iter_batches rp g lt = ([[0, 1], [2, 3], [4]], g)"
    unfolding b2 l4 c by blast
  moreover from T t ft have
    "data (dataset lt) = to_numpy_uint8 example_csv
     \<and> rows (dataset lt) = [0..<length example_csv]"
    by auto
  then have "data (dataset lt) = to_numpy_uint8 example_csv
     \<and> rows (dataset lt) = [0, 1, 2, 3, 4]"
    unfolding example_csv_count example_positions .
  ultimately show ?thesis using r t by blast
qed


section \<open>Properties of the training loop\<close>

subsection \<open>Batches and phases\<close>

lemma batch_step_eval:
  "phase \<noteq> ''train'' \<Longrightarrow>
   batch_step T phase b (st, l, c) =
     (st\<lparr>model := (model st)\<lparr>grad := None\<rparr>\<rparr>,
      l + criterion T (training (model st)) (state_dict (model st)) b * of_nat (shape0 T b),
      Some ((case c of None \<Rightarrow> 0 | Some r \<Rightarrow> r)
            + corrects T (training (model st)) (state_dict (model st)) b))"
  by (simp add: batch_step_def Let_def)

lemma run_batches_eval_state:
  "phase \<noteq> ''train'' \<Longrightarrow>
   fst (run_batches T phase bs (st, l, c))
     = (if bs = [] then st else st\<lparr>model := (model st)\<lparr>grad := None\<rparr>\<rparr>)"
proof (induction bs arbitrary: st l c)
  case Nil
  then show ?case by simp
next
  case (Cons b bs)
  then show ?case by (simp add: batch_step_eval)
qed

lemma run_batches_eval_corrects:
  "phase \<noteq> ''train'' \<Longrightarrow>
   snd (snd (run_batches T phase bs (st, l, c)))
     = (if bs = [] then c
        else Some ((case c of None \<Rightarrow> 0 | Some r \<Rightarrow> r)
               + sum_list (map (corrects T (training (model st)) (state_dict (model st))) bs)))"
proof (induction bs arbitrary: st l c)
  case Nil
  then show ?case by simp
next
  case (Cons b bs)
  then show ?case by (simp add: batch_step_eval)
qed

lemma batch_step_frame:
  "best_acc (fst (batch_step T phase b acc)) = best_acc (fst acc)
   \<and> best_model_wts (fst (batch_step T phase b acc)) = best_model_wts (fst acc)
   \<and> train_val_acc (fst (batch_step T phase b acc)) = train_val_acc (fst acc)
   \<and> train_val_loss (fst (batch_step T phase b acc)) = train_val_loss (fst acc)
   \<and> writer (fst (batch_step T phase b acc)) = writer (fst acc)"
  by (cases acc) (simp add: batch_step_def Let_def split: prod.splits)

lemma run_batches_frame:
  "best_acc (fst (run_batches T phase bs acc)) = best_acc (fst acc)
   \<and> best_model_wts (fst (run_batches T phase bs acc)) = best_model_wts (fst acc)
   \<and> train_val_acc (fst (run_batches T phase bs acc)) = train_val_acc (fst acc)
   \<and> train_val_loss (fst (run_batches T phase bs acc)) = train_val_loss (fst acc)
   \<and> writer (fst (run_batches T phase bs acc)) = writer (fst acc)"
proof (induction bs arbitrary: acc)
  case Nil
  then show ?case by simp
next
  case (Cons b bs)
  show ?case using Cons.IH [of "batch_step T phase b acc"] batch_step_frame [of T phase b acc]
    by simp
qed

lemma finish_phase_Inr:
  assumes "finish_phase T dl sch e phase (st, l, c) = Inr st'"
  shows "\<exists>k. c = Some k \<and> dataset_len dl \<noteq> 0
     \<and> model st' = model st
     \<and> train_val_acc st' = fun_upd (train_val_acc st) phase
          (train_val_acc st phase @ [of_nat k / of_nat (dataset_len dl)])
     \<and> best_acc st' = (if phase = ''val'' \<and> best_acc st < of_nat k / of_nat (dataset_len dl)
                       then of_nat k / of_nat (dataset_len dl) else best_acc st)
     \<and> best_model_wts st' = (if phase = ''val'' \<and> best_acc st < of_nat k / of_nat (dataset_len dl)
                       then state_dict (model st) else best_model_wts st)
     \<and> optimizer st' = (if sch \<and> phase = ''train'' then scheduler_step T (optimizer st) else optimizer st)"
  using assms
  by (cases c) (auto simp add: finish_phase_def Let_def split: if_splits)

lemma run_phase_val:
  assumes "run_phase T dls sch e ''val'' st = Inr st'"
  shows "\<exists>dl. dls ''val'' = Some dl
     \<and> state_dict (model st') = state_dict (model st)
     \<and> optimizer st' = optimizer st
     \<and> train_val_acc st' ''val''
         = train_val_acc st ''val'' @ [val_accuracy T dl e (state_dict (model st))]
     \<and> best_acc st' = (if best_acc st < val_accuracy T dl e (state_dict (model st))
                       then val_accuracy T dl e (state_dict (model st)) else best_acc st)
     \<and> best_model_wts st' = (if best_acc st < val_accuracy T dl e (state_dict (model st))
                       then state_dict (model st) else best_model_wts st)"
proof -
  obtain dl where dl: "dls ''val'' = Some dl"
    using assms by (cases "dls ''val''") (simp_all add: run_phase_def)
  let ?st0 = "st\<lparr>model := (model st)\<lparr>training := False\<rparr>\<rparr>"
  let ?R = "run_batches T ''val'' (batches dl e) (?st0, 0, None)"
  have fin: "finish_phase T dl sch e ''val'' (fst ?R, fst (snd ?R), snd (snd ?R)) = Inr st'"
    using assms dl by (simp add: run_phase_def)
  have ne: "''val'' \<noteq> ''train''" by simp
  note S = run_batches_eval_state [OF ne, of T "batches dl e" ?st0 0 None]
  note C = run_batches_eval_corrects [OF ne, of T "batches dl e" ?st0 0 None]
  from finish_phase_Inr [OF fin] obtain k where
    k: "snd (snd ?R) = Some k" and n0: "dataset_len dl \<noteq> 0"
    and m: "model st' = model (fst ?R)"
    and a: "train_val_acc st' = fun_upd (train_val_acc (fst ?R)) ''val''
          (train_val_acc (fst ?R) ''val'' @ [of_nat k / of_nat (dataset_len dl)])"
    and b: "best_acc st' = (if best_acc (fst ?R) < of_nat k / of_nat (dataset_len dl)
                       then of_nat k / of_nat (dataset_len dl) else best_acc (fst ?R))"
    and w: "best_model_wts st' = (if best_acc (fst ?R) < of_nat k / of_nat (dataset_len dl)
                       then state_dict (model (fst ?R)) else best_model_wts (fst ?R))"
    and o: "optimizer st' = optimizer (fst ?R)"
    by auto
  have bs: "batches dl e \<noteq> []" using k C by (auto split: if_splits)
  have kv: "of_nat k / of_nat (dataset_len dl) = val_accuracy T dl e (state_dict (model st))"
    using k C bs by (simp add: val_accuracy_def)
  have R: "fst ?R = ?st0\<lparr>model := (model ?st0)\<lparr>grad := None\<rparr>\<rparr>" using S bs by simp
  show ?thesis
    using dl m a b w o unfolding kv R by simp
qed

lemma run_phase_train:
  assumes "run_phase T dls sch e ''train'' st = Inr st'"
  shows "best_acc st' = best_acc st \<and> best_model_wts st' = best_model_wts st
     \<and> train_val_acc st' ''val'' = train_val_acc st ''val''"
proof -
  obtain dl where dl: "dls ''train'' = Some dl"
    using assms by (cases "dls ''train''") (simp_all add: run_phase_def)
  let ?st0 = "st\<lparr>model := (model st)\<lparr>training := True\<rparr>\<rparr>"
  let ?R = "run_batches T ''train'' (batches dl e) (?st0, 0, None)"
  have fin: "finish_phase T dl sch e ''train'' (fst ?R, fst (snd ?R), snd (snd ?R)) = Inr st'"
    using assms dl by (simp add: run_phase_def)
  note F = run_batches_frame [of T "''train''" "batches dl e" "(?st0, 0, None)"]
  from finish_phase_Inr [OF fin] F show ?thesis by auto
qed

lemma run_epoch_val:
  assumes "run_epoch T dls sch e st = Inr st'"
  shows "\<exists>dl. dls ''val'' = Some dl
     \<and> train_val_acc st' ''val''
         = train_val_acc st ''val'' @ [val_accuracy T dl e (state_dict (model st'))]
     \<and> best_acc st' = (if best_acc st < val_accuracy T dl e (state_dict (model st'))
                       then val_accuracy T dl e (state_dict (model st')) else best_acc st)
     \<and> best_model_wts st' = (if best_acc st < val_accuracy T dl e (state_dict (model st'))
                       then state_dict (model st') else best_model_wts st)"
proof -
  obtain st1 where t: "run_phase T dls sch e ''train'' st = Inr st1"
    using assms by (cases "run_phase T dls sch e ''train'' st") (simp_all add: run_epoch_def)
  obtain st2 where v: "run_phase T dls sch e ''val'' st1 = Inr st2"
    using assms t by (cases "run_phase T dls sch e ''val'' st1") (simp_all add: run_epoch_def)
  have st': "st' = st2\<lparr>writer := writer st2 @
                     [add_scalars ''Loss: Train vs. Val'' (train_val_loss_dict st2) e,
                      add_scalars ''Accuracy: Train vs. Val'' (train_val_acc_dict st2) e]\<rparr>"
    using assms t v by (simp add: run_epoch_def)
  from run_phase_val [OF v] run_phase_train [OF t] show ?thesis unfolding st' by auto
qed

subsection \<open>The loop over the epochs\<close>

lemma val_accuracy_nonneg: "0 \<le> val_accuracy T dl e p"
  by (simp add: val_accuracy_def)

lemma run_epochs_accs:
  "run_epochs T dls sch es st = Inr st' \<Longrightarrow>
   \<exists>ys. train_val_acc st' ''val'' = train_val_acc st ''val'' @ ys \<and> length ys = length es"
proof (induction es arbitrary: st)
  case Nil
  then show ?case by simp
next
  case (Cons e es)
  obtain st1 where s1: "run_epoch T dls sch e st = Inr st1"
    using Cons.prems by (cases "run_epoch T dls sch e st") simp_all
  have r: "run_epochs T dls sch es st1 = Inr st'" using Cons.prems s1 by simp
  from run_epoch_val [OF s1] obtain a where
    a: "train_val_acc st1 ''val'' = train_val_acc st ''val'' @ [a]" by blast
  from Cons.IH [OF r] obtain ys where
    "train_val_acc st' ''val'' = train_val_acc st1 ''val'' @ ys" "length ys = length es" by blast
  then have "train_val_acc st' ''val'' = train_val_acc st ''val'' @ (a # ys)
      \<and> length (a # ys) = length (e # es)" using a by simp
  then show ?case by blast
qed

lemma run_epochs_best:
  assumes "run_epochs T dls sch es st = Inr st'"
    and "dls ''val'' = Some dl"
    and "\<forall>a \<in> set (train_val_acc st ''val''). a \<le> best_acc st"
    and "best_acc st \<in> insert 0 (set (train_val_acc st ''val''))"
    and "(best_acc st = 0 \<and> best_model_wts st = p0)
         \<or> (\<exists>e \<in> E. best_acc st = val_accuracy T dl e (best_model_wts st))"
  shows "(\<forall>a \<in> set (train_val_acc st' ''val''). a \<le> best_acc st')
     \<and> best_acc st' \<in> insert 0 (set (train_val_acc st' ''val''))
     \<and> ((best_acc st' = 0 \<and> best_model_wts st' = p0)
         \<or> (\<exists>e \<in> E \<union> set es. best_acc st' = val_accuracy T dl e (best_model_wts st')))"
  using assms
proof (induction es arbitrary: st E)
  case Nil
  then show ?case by simp
next
  case (Cons e es)
  obtain st1 where s1: "run_epoch T dls sch e st = Inr st1"
    using Cons.prems(1) by (cases "run_epoch T dls sch e st") simp_all
  have r: "run_epochs T dls sch es st1 = Inr st'" using Cons.prems(1) s1 by simp
  let ?a = "val_accuracy T dl e (state_dict (model st1))"
  from run_epoch_val [OF s1] Cons.prems(2) have
    acc: "train_val_acc st1 ''val'' = train_val_acc st ''val'' @ [?a]"
    and b: "best_acc st1 = (if best_acc st < ?a then ?a else best_acc st)"
    and w: "best_model_wts st1 = (if best_acc st < ?a then state_dict (model st1)
                                  else best_model_wts st)"
    by auto
  have i1: "\<forall>a \<in> set (train_val_acc st1 ''val''). a \<le> best_acc st1"
    using Cons.prems(3) acc b by auto
  have i2: "best_acc st1 \<in> insert 0 (set (train_val_acc st1 ''val''))"
    using Cons.prems(4) acc b by auto
  have i3: "(best_acc st1 = 0 \<and> best_model_wts st1 = p0)
         \<or> (\<exists>e' \<in> insert e E. best_acc st1 = val_accuracy T dl e' (best_model_wts st1))"
    using Cons.prems(5) b w by auto
  from Cons.IH [OF r Cons.prems(2) i1 i2 i3] show ?case by auto
qed

lemma run_epochs_no_improvement:
  assumes "run_epochs T dls sch es st = Inr st'"
    and "\<forall>a \<in> set (train_val_acc st' ''val''). a \<le> 0"
    and "best_acc st = 0"
  shows "best_acc st' = 0 \<and> best_model_wts st' = best_model_wts st"
  using assms
proof (induction es arbitrary: st)
  case Nil
  then show ?case by simp
next
  case (Cons e es)
  obtain st1 where s1: "run_epoch T dls sch e st = Inr st1"
    using Cons.prems(1) by (cases "run_epoch T dls sch e st") simp_all
  have r: "run_epochs T dls sch es st1 = Inr st'" using Cons.prems(1) s1 by simp
  from run_epoch_val [OF s1] obtain dl where
    acc: "train_val_acc st1 ''val''
            = train_val_acc st ''val'' @ [val_accuracy T dl e (state_dict (model st1))]"
    and b: "best_acc st1 = (if best_acc st < val_accuracy T dl e (state_dict (model st1))
                            then val_accuracy T dl e (state_dict (model st1)) else best_acc st)"
    and w: "best_model_wts st1 = (if best_acc st < val_accuracy T dl e (state_dict (model st1))
                                  then state_dict (model st1) else best_model_wts st)"
    by blast
  from run_epochs_accs [OF r] acc have
    "val_accuracy T dl e (state_dict (model st1)) \<in> set (train_val_acc st' ''val'')" by auto
  then have le: "val_accuracy T dl e (state_dict (model st1)) \<le> 0" using Cons.prems(2) by blast
  have "best_acc st1 = 0" and "best_model_wts st1 = best_model_wts st"
    using b w le Cons.prems(3) by auto
  with Cons.IH [OF r Cons.prems(2)] show ?case by simp
qed

lemma train_Inr:
  assumes "train T m dls opt w sch save n plot = Inr out"
  shows "\<exists>st. run_epochs T dls sch [1..n] (initial_trainer m opt w) = Inr st
      \<and> state_dict (returned out) = best_model_wts st
      \<and> best_model_wts (locals out) = best_model_wts st
      \<and> best_acc (locals out) = best_acc st
      \<and> train_val_acc (locals out) = train_val_acc st"
  using assms
  by (cases "run_epochs T dls sch [1..n] (initial_trainer m opt w)")
     (auto simp add: train_def Let_def)

lemma upto_1_2: "[1..2] = [1, 2::int]"
  by (simp add: upto_rec1)

subsection \<open>The claims about the training loop\<close>

text \<open>
  C4. In the validation phase the parameter state is never written: one batch leaves
  \<open>state_dict\<close> and the optimizer as they were (only the gradient accumulators are reset),
  so do all batches of the phase, and so does the whole phase when it returns.
\<close>

theorem validation_keeps_parameters:
  "state_dict (model (fst (batch_step T ''val'' b (st, l, c)))) = state_dict (model st)
   \<and> optimizer (fst (batch_step T ''val'' b (st, l, c))) = optimizer st
   \<and> state_dict (model (fst (run_batches T ''val'' bs (st, l, c)))) = state_dict (model st)
   \<and> optimizer (fst (run_batches T ''val'' bs (st, l, c))) = optimizer st
   \<and> (run_phase T dls sch e ''val'' st = Inr st' \<longrightarrow>
        state_dict (model st') = state_dict (model st) \<and> optimizer st' = optimizer st)"
proof -
  have ne: "''val'' \<noteq> ''train''" by simp
  have "state_dict (model (fst (batch_step T ''val'' b (st, l, c)))) = state_dict (model st)"
    and "optimizer (fst (batch_step T ''val'' b (st, l, c))) = optimizer st"
    by (simp_all add: batch_step_eval [OF ne])
  moreover have "state_dict (model (fst (run_batches T ''val'' bs (st, l, c)))) = state_dict (model st)"
    and "optimizer (fst (run_batches T ''val'' bs (st, l, c))) = optimizer st"
    by (simp_all add: run_batches_eval_state [OF ne])
  moreover have "run_phase T dls sch e ''val'' st = Inr st' \<longrightarrow>
        state_dict (model st') = state_dict (model st) \<and> optimizer st' = optimizer st"
    using run_phase_val [of T dls sch e st st'] by blast
  ultimately show ?thesis by blast
qed

theorem validation_keeps_parameters_witness:
  "\<exists>st'. run_phase (example_torch 2) example_loaders True 1 ''val''
            (initial_trainer example_model 7 []) = Inr st'
        \<and> state_dict (model st') = 0 \<and> optimizer st' = 7"
proof -
  have "\<exists>st'. run_phase (example_torch 2) example_loaders True 1 ''val''
            (initial_trainer example_model 7 []) = Inr st'"
    by (simp add: run_phase_def finish_phase_def batch_step_def example_torch_def
        example_loaders_def example_model_def initial_trainer_def Let_def)
  then obtain st' where r: "run_phase (example_torch 2) example_loaders True 1 ''val''
            (initial_trainer example_model 7 []) = Inr st'" by blast
  from validation_keeps_parameters
    [of "example_torch 2" 0 "initial_trainer example_model 7 []" 0 None "[]"
        example_loaders True 1 st'] r
  have "state_dict (model st') = 0 \<and> optimizer st' = 7"
    by (simp add: initial_trainer_def example_model_def)
  with r show ?thesis by blast
qed

text \<open>
  C5. With \<open>num_epochs = 0\<close> the loop body never runs: \<open>train\<close> returns the model it was
  given (its parameter state is overwritten with the copy of itself taken at the start),
  the two per-phase logs are empty for every key and the writer has received nothing.
\<close>

theorem train_zero_epochs:
  "train T m dls opt w sch save 0 plot
     = Inr \<lparr>returned = m, locals = initial_trainer m opt w, plotted = plot,
            saved = (if save then Some (''saved_models/'' @ class_name m @ ''_best.pt'', m)
                     else None)\<rparr>
   \<and> train_val_loss (initial_trainer m opt w) = (\<lambda>x. [])
   \<and> train_val_acc (initial_trainer m opt w) = (\<lambda>x. [])
   \<and> writer (initial_trainer m opt w) = w"
  by (simp add: train_def initial_trainer_def SAVE_MODEL_DIR_def)

text \<open>
  C3. (1) An epoch replaces the retained checkpoint by the current parameters exactly when
  the validation accuracy it has just recorded is strictly above the best so far, and
  otherwise keeps both. (2) After \<open>n \<ge> 1\<close> epochs the returned model carries the retained
  checkpoint; one validation accuracy has been recorded per epoch; the retained best
  accuracy is the maximum of \<open>0\<close> and the recorded ones; and the validation accuracy of the
  returned parameters, measured on the batches of some epoch of the run, is at least every
  recorded accuracy.
\<close>

theorem best_checkpoint_is_argmax:
  assumes "train T m dls opt w sch save n plot = Inr out" and "1 \<le> n"
  shows "(\<forall>e st st'. run_epoch T dls sch e st = Inr st' \<longrightarrow>
            best_acc st' = (if best_acc st < last (train_val_acc st' ''val'')
                            then last (train_val_acc st' ''val'') else best_acc st)
          \<and> best_model_wts st' = (if best_acc st < last (train_val_acc st' ''val'')
                            then state_dict (model st') else best_model_wts st))
     \<and> state_dict (returned out) = best_model_wts (locals out)
     \<and> length (train_val_acc (locals out) ''val'') = nat n
     \<and> best_acc (locals out) = Max (insert 0 (set (train_val_acc (locals out) ''val'')))
     \<and> (\<exists>dl. dls ''val'' = Some dl
          \<and> (\<exists>e \<in> {1..n}. \<forall>a \<in> set (train_val_acc (locals out) ''val'').
                a \<le> val_accuracy T dl e (state_dict (returned out))))"
proof -
  have rule: "\<forall>e st st'. run_epoch T dls sch e st = Inr st' \<longrightarrow>
            best_acc st' = (if best_acc st < last (train_val_acc st' ''val'')
                            then last (train_val_acc st' ''val'') else best_acc st)
          \<and> best_model_wts st' = (if best_acc st < last (train_val_acc st' ''val'')
                            then state_dict (model st') else best_model_wts st)"
  proof (intro allI impI)
    fix e st st'
    assume "run_epoch T dls sch e st = Inr st'"
    from run_epoch_val [OF this] obtain dl where
      "train_val_acc st' ''val''
         = train_val_acc st ''val'' @ [val_accuracy T dl e (state_dict (model st'))]"
      "best_acc st' = (if best_acc st < val_accuracy T dl e (state_dict (model st'))
                       then val_accuracy T dl e (state_dict (model st')) else best_acc st)"
      "best_model_wts st' = (if best_acc st < val_accuracy T dl e (state_dict (model st'))
                       then state_dict (model st') else best_model_wts st)"
      by blast
    then show "best_acc st' = (if best_acc st < last (train_val_acc st' ''val'')
                            then last (train_val_acc st' ''val'') else best_acc st)
          \<and> best_model_wts st' = (if best_acc st < last (train_val_acc st' ''val'')
                            then state_dict (model st') else best_model_wts st)"
      by simp
  qed
  let ?st0 = "initial_trainer m opt w"
  from train_Inr [OF assms(1)] obtain st where
    run: "run_epochs T dls sch [1..n] ?st0 = Inr st"
    and ret: "state_dict (returned out) = best_model_wts st"
    and lw: "best_model_wts (locals out) = best_model_wts st"
    and lb: "best_acc (locals out) = best_acc st"
    and la: "train_val_acc (locals out) = train_val_acc st"
    by blast
  have ne: "[1..n] = 1 # [2..n]" using assms(2) by (simp add: upto_rec1)
  obtain st1 where s1: "run_epoch T dls sch 1 ?st0 = Inr st1"
    using run ne by (cases "run_epoch T dls sch 1 ?st0") simp_all
  from run_epoch_val [OF s1] obtain dl where dl: "dls ''val'' = Some dl" by blast
  have i0: "train_val_acc ?st0 ''val'' = []" "best_acc ?st0 = 0"
    "best_model_wts ?st0 = state_dict m"
    by (simp_all add: initial_trainer_def)
  from run_epochs_accs [OF run] i0 have len: "length (train_val_acc st ''val'') = nat n"
    by auto
  have inv: "(\<forall>a \<in> set (train_val_acc st ''val''). a \<le> best_acc st)
     \<and> best_acc st \<in> insert 0 (set (train_val_acc st ''val''))
     \<and> ((best_acc st = 0 \<and> best_model_wts st = state_dict m)
         \<or> (\<exists>e \<in> {} \<union> set [1..n]. best_acc st = val_accuracy T dl e (best_model_wts st)))"
    by (rule run_epochs_best [OF run dl]) (simp_all add: i0)
  have mx: "best_acc st = Max (insert 0 (set (train_val_acc st ''val'')))"
  proof (rule sym, rule Max_eqI)
    show "finite (insert 0 (set (train_val_acc st ''val'')))" by simp
    show "best_acc st \<in> insert 0 (set (train_val_acc st ''val''))" using inv by blast
    fix y assume y: "y \<in> insert 0 (set (train_val_acc st ''val''))"
    have "0 \<le> best_acc st"
    proof (cases "best_acc st = 0")
      case True
      then show ?thesis by simp
    next
      case False
      then obtain e where "best_acc st = val_accuracy T dl e (best_model_wts st)"
        using inv by blast
      then show ?thesis by (simp add: val_accuracy_nonneg)
    qed
    with y inv show "y \<le> best_acc st" by auto
  qed
  have arg: "\<exists>e \<in> {1..n}. \<forall>a \<in> set (train_val_acc st ''val'').
                a \<le> val_accuracy T dl e (best_model_wts st)"
  proof (cases "\<exists>e \<in> set [1..n]. best_acc st = val_accuracy T dl e (best_model_wts st)")
    case True
    then obtain e where "e \<in> {1..n}" "best_acc st = val_accuracy T dl e (best_model_wts st)"
      by auto
    with inv show ?thesis by auto
  next
    case False
    then have z: "best_acc st = 0" using inv by blast
    have "\<forall>a \<in> set (train_val_acc st ''val''). a \<le> val_accuracy T dl 1 (best_model_wts st)"
    proof
      fix a assume "a \<in> set (train_val_acc st ''val'')"
      then have "a \<le> 0" using inv z by auto
      also have "0 \<le> val_accuracy T dl 1 (best_model_wts st)" by (rule val_accuracy_nonneg)
      finally show "a \<le> val_accuracy T dl 1 (best_model_wts st)" .
    qed
    moreover have "1 \<in> {1..n}" using assms(2) by simp
    ultimately show ?thesis by blast
  qed
  show ?thesis using rule ret lw lb la len mx arg dl by auto
qed

theorem best_checkpoint_is_argmax_witness:
  "\<exists>out. train (example_torch 2) example_model example_loaders 0 [] True False 2 False = Inr out
      \<and> (1::int) \<le> 2
      \<and> state_dict (returned out) = 2
      \<and> state_dict (model (locals out)) = 2
      \<and> train_val_acc (locals out) ''val'' = [1, 1]
      \<and> best_acc (locals out) = Max (insert 0 (set (train_val_acc (locals out) ''val'')))"
proof -
  have "\<exists>out. train (example_torch 2) example_model example_loaders 0 [] True False 2 False = Inr out
      \<and> state_dict (returned out) = 2 \<and> state_dict (model (locals out)) = 2
      \<and> train_val_acc (locals out) ''val'' = [1, 1]"
    by (simp add: train_def upto_1_2 run_epoch_def run_phase_def finish_phase_def batch_step_def
        example_torch_def example_loaders_def example_model_def initial_trainer_def Let_def)
  then obtain out where
    r: "train (example_torch 2) example_model example_loaders 0 [] True False 2 False = Inr out"
    and v: "state_dict (returned out) = 2" "state_dict (model (locals out)) = 2"
      "train_val_acc (locals out) ''val'' = [1, 1]"
    by blast
  have n: "(1::int) \<le> 2" by simp
  from best_checkpoint_is_argmax [OF r n] have
    "best_acc (locals out) = Max (insert 0 (set (train_val_acc (locals out) ''val'')))"
    by blast
  with r v n show ?thesis by blast
qed

text \<open>
  C10. When \<open>train\<close> has run \<open>n \<ge> 1\<close> epochs and none of the \<open>n\<close> recorded validation
  accuracies is above \<open>0\<close>, the returned model carries the parameter state that the model
  had when \<open>train\<close> was called.
\<close>

theorem no_improvement_returns_initial:
  assumes "train T m dls opt w sch save n plot = Inr out" and "1 \<le> n"
    and "\<forall>a \<in> set (train_val_acc (locals out) ''val''). a \<le> 0"
  shows "state_dict (returned out) = state_dict m
     \<and> length (train_val_acc (locals out) ''val'') = nat n"
proof -
  let ?st0 = "initial_trainer m opt w"
  from train_Inr [OF assms(1)] obtain st where
    run: "run_epochs T dls sch [1..n] ?st0 = Inr st"
    and ret: "state_dict (returned out) = best_model_wts st"
    and la: "train_val_acc (locals out) = train_val_acc st"
    by blast
  have i0: "train_val_acc ?st0 ''val'' = []" "best_acc ?st0 = 0"
    "best_model_wts ?st0 = state_dict m"
    by (simp_all add: initial_trainer_def)
  have le: "\<forall>a \<in> set (train_val_acc st ''val''). a \<le> 0" using assms(3) la by simp
  from run_epochs_no_improvement [OF run le i0(2)] ret i0(3)
  have "state_dict (returned out) = state_dict m" by simp
  moreover from run_epochs_accs [OF run] i0 la
  have "length (train_val_acc (locals out) ''val'') = nat n" by auto
  ultimately show ?thesis by blast
qed

theorem no_improvement_returns_initial_witness:
  "\<exists>out. train (example_torch 100) example_model example_loaders 0 [] True False 2 False = Inr out
      \<and> (1::int) \<le> 2
      \<and> (\<forall>a \<in> set (train_val_acc (locals out) ''val''). a \<le> 0)
      \<and> state_dict (model (locals out)) = state_dict example_model
      \<and> state_dict (returned out) = state_dict example_model"
proof -
  have "\<exists>out. train (example_torch 100) example_model example_loaders 0 [] True False 2 False = Inr out
      \<and> train_val_acc (locals out) ''val'' = [0, 0]
      \<and> state_dict (model (locals out)) = state_dict example_model"
    by (simp add: train_def upto_1_2 run_epoch_def run_phase_def finish_phase_def batch_step_def
        example_torch_def example_loaders_def example_model_def initial_trainer_def Let_def)
  then obtain out where
    r: "train (example_torch 100) example_model example_loaders 0 [] True False 2 False = Inr out"
    and a: "train_val_acc (locals out) ''val'' = [0, 0]"
    and s: "state_dict (model (locals out)) = state_dict example_model"
    by blast
  have n: "(1::int) \<le> 2" by simp
  have h: "\<forall>a \<in> set (train_val_acc (locals out) ''val''). a \<le> 0" using a by simp
  from no_improvement_returns_initial [OF r n h]
  have "state_dict (returned out) = state_dict example_model" by blast
  with r n h s show ?thesis by blast
qed

end
